theory Spec2Isabelle
  imports Complex_Main
begin

section \<open>JavaScript values used by \<open>src/lib/solana.ts\<close>\<close>

text \<open>
  Numbers of the program are IEEE doubles. Delays, fees and the transfer amounts that the
  wallet figures add up are modelled by exact rationals (\<open>rat\<close>), so the rounding of a sum
  is not part of the model: what is proved there is which values are combined. The
  quotients and products of the holder figures are doubles proper, see the section on token
  figures. Milliseconds read from the clock are integers (\<open>int\<close>); counters and loop
  indices are naturals.

  A thrown value is either an \<open>Error\<close> object, of which only the \<open>message\<close> matters
  here, or some other (non-nullish) value without a \<open>message\<close> property.
\<close>

datatype thrown = Error (message: string) | NonError

text \<open>\<open>String.prototype.includes\<close>: a case-sensitive search for a contiguous substring.\<close>

fun starts_with :: "string \<Rightarrow> string \<Rightarrow> bool" where
  "starts_with s [] = True"
| "starts_with [] (c # cs) = False"
| "starts_with (x # xs) (c # cs) = (x = c \<and> starts_with xs cs)"

fun str_includes :: "string \<Rightarrow> string \<Rightarrow> bool" where
  "str_includes [] sub = (sub = [])"
| "str_includes (x # xs) sub = (starts_with (x # xs) sub \<or> str_includes xs sub)"

text \<open>The decimal rendering of a status code inside a template literal.\<close>

definition digit_char :: "nat \<Rightarrow> char" where
  "digit_char d = ''0123456789'' ! d"

function show_nat :: "nat \<Rightarrow> string" where
  "show_nat n = (if n < 10 then [digit_char n] else show_nat (n div 10) @ [digit_char (n mod 10)])"
  by pat_completeness auto
termination
  by (relation "measure id") auto

declare show_nat.simps [simp del]

section \<open>Retry with backoff\<close>

text \<open>
  \<open>retryWithBackoff(fn, maxRetries, baseDelay)\<close>, lines 324-351. The operation \<open>fn\<close> is
  modelled by the outcome of each of its invocations: \<open>fn i\<close> is what the call made in loop
  iteration \<open>i\<close> settles to (\<open>Inl\<close> a thrown value, \<open>Inr\<close> a result). \<open>rnd i\<close> is the value
  \<open>Math.random()\<close> returns when it is drawn after the failure of iteration \<open>i\<close>.
  The run records the number of invocations of \<open>fn\<close> and the argument of every
  \<open>delay\<close> call, in order. \<open>maxRetries\<close> is a natural number, as at every call site.
\<close>

definition isRateLimitError :: "thrown \<Rightarrow> bool" where
  "isRateLimitError e =
     (case e of
        Error m \<Rightarrow> str_includes m ''429'' \<or> str_includes m ''rate limit''
      | NonError \<Rightarrow> False)"

record 'a retry_run =
  outcome :: "thrown + 'a"
  attempts :: nat
  waits :: "rat list"

function retry_loop ::
  "(nat \<Rightarrow> thrown + 'a) \<Rightarrow> nat \<Rightarrow> rat \<Rightarrow> (nat \<Rightarrow> rat) \<Rightarrow> nat \<Rightarrow> rat list \<Rightarrow> 'a retry_run"
where
  "retry_loop fn maxRetries baseDelay rnd i ws =
     (if i < maxRetries then
        (case fn i of
           Inr v \<Rightarrow> \<lparr>outcome = Inr v, attempts = Suc i, waits = ws\<rparr>
         | Inl e \<Rightarrow>
             if Suc i = maxRetries then \<lparr>outcome = Inl e, attempts = Suc i, waits = ws\<rparr>
             else if isRateLimitError e then
               retry_loop fn maxRetries baseDelay rnd (Suc i)
                 (ws @ [baseDelay * 2 ^ i + rnd i * 1000])
             else retry_loop fn maxRetries baseDelay rnd (Suc i) (ws @ [baseDelay]))
      else \<lparr>outcome = Inl (Error ''Max retries exceeded''), attempts = i, waits = ws\<rparr>)"
  by pat_completeness auto
termination
  by (relation "measure (\<lambda>(fn, maxRetries, baseDelay, rnd, i, ws). maxRetries - i)") auto

declare retry_loop.simps [simp del]

definition retryWithBackoff ::
  "(nat \<Rightarrow> thrown + 'a) \<Rightarrow> nat \<Rightarrow> rat \<Rightarrow> (nat \<Rightarrow> rat) \<Rightarrow> 'a retry_run" where
  "retryWithBackoff fn maxRetries baseDelay rnd = retry_loop fn maxRetries baseDelay rnd 0 []"

text \<open>
  The transport. \<open>fetch\<close> either rejects (a network error) or resolves to a response with
  a status code and a body; \<open>response.ok\<close> holds for the statuses 200 to 299.
\<close>

record 'b response =
  status :: nat
  body :: 'b

definition ok :: "'b response \<Rightarrow> bool" where
  "ok r = (200 \<le> status r \<and> status r \<le> 299)"

text \<open>The operation \<open>fetchWithRetry\<close> wraps (lines 357-374): one \<open>fetch\<close> and its status check.\<close>

definition fetchAttempt :: "thrown + 'b response \<Rightarrow> thrown + 'b response" where
  "fetchAttempt x =
     (case x of
        Inl e \<Rightarrow> Inl e
      | Inr r \<Rightarrow>
          if \<not> ok r then
            (if status r = 429 then Inl (Error ''Rate limit exceeded'')
             else Inl (Error (''HTTP error! status: '' @ show_nat (status r))))
          else Inr r)"

text \<open>
  The body \<open>fetchWithRetry\<close> hands to the request queue (lines 356-377): the wrapped fetch
  retried with \<open>maxRetries = 3\<close> and \<open>baseDelay = 2000\<close>. \<open>net i\<close> is what the \<open>i\<close>-th
  \<open>fetch\<close> of this call settles to.
\<close>

definition fetchWithRetry_body ::
  "(nat \<Rightarrow> thrown + 'b response) \<Rightarrow> (nat \<Rightarrow> rat) \<Rightarrow> ('b response) retry_run" where
  "fetchWithRetry_body net rnd = retryWithBackoff (\<lambda>i. fetchAttempt (net i)) 3 2000 rnd"

text \<open>
  The operation \<open>rpcCall\<close> wraps (lines 385-411) and the body it hands to the request
  queue. The body of a JSON-RPC response is what \<open>response.json()\<close> settles to: a reply
  with an \<open>error\<close> member, of which the message is kept, or a reply with a result.
\<close>

datatype 'a rpc_reply = RpcError string | RpcResult 'a

definition rpcAttempt :: "thrown + (thrown + 'a rpc_reply) response \<Rightarrow> thrown + 'a" where
  "rpcAttempt x =
     (case x of
        Inl e \<Rightarrow> Inl e
      | Inr r \<Rightarrow>
          if \<not> ok r then
            (if status r = 429 then Inl (Error ''Rate limit exceeded'')
             else Inl (Error (''HTTP error! status: '' @ show_nat (status r))))
          else
            (case body r of
               Inl e \<Rightarrow> Inl e
             | Inr (RpcError m) \<Rightarrow> Inl (Error (''RPC Error: '' @ m))
             | Inr (RpcResult v) \<Rightarrow> Inr v))"

definition rpcCall_body ::
  "(nat \<Rightarrow> thrown + (thrown + 'a rpc_reply) response) \<Rightarrow> (nat \<Rightarrow> rat) \<Rightarrow> 'a retry_run" where
  "rpcCall_body net rnd = retryWithBackoff (\<lambda>i. rpcAttempt (net i)) 3 2000 rnd"

section \<open>The request queue\<close>

text \<open>
  \<open>class RequestQueue\<close>, lines 275-320. JavaScript runs each piece of code between two
  suspension points to completion, so the queue is modelled by its state and one function per
  uninterrupted piece:
  \<^item> \<open>add\<close>: the promise executor of \<open>add\<close> (push, then the call \<open>this.process()\<close>);
  \<^item> \<open>process\<close>: \<open>process\<close> from its entry up to its first \<open>await\<close>;
  \<^item> \<open>start_batch\<close>: one pass of the \<open>while\<close> body up to \<open>await Promise.all\<close>;
  \<^item> \<open>batch_settled\<close>: the continuation after \<open>await Promise.all(promises)\<close>;
  \<^item> \<open>delay_elapsed\<close>: the continuation after \<open>await delay(this.batchDelay)\<close>.

  An entry is a queued call: \<open>fn\<close> is the zero-argument operation, given by what the
  promise it returns settles to, and \<open>ident\<close> names the caller's handle (the pair
  \<open>resolve\<close>/\<open>reject\<close>). The mapped callback of line 301 is an \<open>async\<close> arrow function:
  called by \<open>batch.map\<close>, it runs synchronously up to \<open>await fn()\<close>, that is, it invokes
  \<open>fn\<close>. \<open>started\<close> lists the handles whose operation has been invoked, in order;
  \<open>settled\<close> lists the handles that were resolved or rejected, with the value delivered.
\<close>

record 'a entry =
  ident :: nat
  fn :: "unit \<Rightarrow> thrown + 'a"

record 'a RequestQueue =
  queue :: "'a entry list"
  processing :: bool
  inflight :: "'a entry list"
  sleeping :: bool
  started :: "nat list"
  settled :: "(nat \<times> (thrown + 'a)) list"

definition batchSize :: nat where
  "batchSize = 5"

definition batchDelay :: rat where
  "batchDelay = 200"

definition newRequestQueue :: "'a RequestQueue" where
  "newRequestQueue =
     \<lparr>queue = [], processing = False, inflight = [], sleeping = False, started = [], settled = []\<rparr>"

definition start_batch :: "'a RequestQueue \<Rightarrow> 'a RequestQueue" where
  "start_batch q =
     (let batch = take batchSize (queue q)
      in q\<lparr>queue := drop batchSize (queue q),
            inflight := batch,
            started := started q @ map ident batch\<rparr>)"

definition process :: "'a RequestQueue \<Rightarrow> 'a RequestQueue" where
  "process q =
     (if processing q \<or> length (queue q) = 0 then q
      else start_batch (q\<lparr>processing := True\<rparr>))"

definition add :: "'a RequestQueue \<Rightarrow> 'a entry \<Rightarrow> 'a RequestQueue" where
  "add q e = process (q\<lparr>queue := queue q @ [e]\<rparr>)"

text \<open>
  Each callback of the batch delivers the outcome of its own operation to its own handle
  (\<open>resolve(result)\<close> or \<open>reject(error)\<close>) when that operation settles; when all
  have done so the loop goes on. The deliveries of one batch are recorded together, in the
  order of the batch.
\<close>

definition batch_settled :: "'a RequestQueue \<Rightarrow> 'a RequestQueue" where
  "batch_settled q =
     (let q' = q\<lparr>settled := settled q @ map (\<lambda>e. (ident e, fn e ())) (inflight q),
                 inflight := []\<rparr>
      in if length (queue q') > 0 then q'\<lparr>sleeping := True\<rparr>
         else q'\<lparr>processing := False\<rparr>)"

definition delay_elapsed :: "'a RequestQueue \<Rightarrow> 'a RequestQueue" where
  "delay_elapsed q =
     (let q' = q\<lparr>sleeping := False\<rparr>
      in if length (queue q') > 0 then start_batch q'
         else q'\<lparr>processing := False\<rparr>)"

text \<open>The handle of a call: what was delivered to it, if anything yet.\<close>

definition handle :: "'a RequestQueue \<Rightarrow> nat \<Rightarrow> (thrown + 'a) option" where
  "handle q k = map_of (settled q) k"

text \<open>
  \<open>fetchWithRetry\<close> (lines 354-379): the retried fetch submitted to the queue under the
  handle \<open>k\<close>.
\<close>

definition fetchWithRetry ::
  "('b response) RequestQueue \<Rightarrow> nat \<Rightarrow> (nat \<Rightarrow> thrown + 'b response) \<Rightarrow> (nat \<Rightarrow> rat)
     \<Rightarrow> ('b response) RequestQueue" where
  "fetchWithRetry q k net rnd =
     add q \<lparr>ident = k, fn = (\<lambda>_. outcome (fetchWithRetry_body net rnd))\<rparr>"

section \<open>Transactions\<close>

text \<open>
  The interfaces \<open>TokenTransfer\<close>, \<open>NativeTransfer\<close> and \<open>EnhancedTokenTransaction\<close>
  (lines 154-231), with the fields the functions below read. An optional field is an
  \<open>option\<close>. The amount of a native transfer is called \<open>nativeAmount\<close> (the name
  \<open>amount\<close> belongs to a top holder below), the \<open>type\<close> of a transaction \<open>txType\<close>.
  The fields that are only passed through (\<open>slot\<close>, \<open>events\<close>, \<open>accountData\<close>,
  \<open>meta\<close>, ...) are left out.
\<close>

record TokenTransfer =
  fromUserAccount :: "string option"
  toUserAccount :: "string option"
  mint :: string
  tokenAmount :: rat

record NativeTransfer =
  nativeFrom :: "string option"
  nativeTo :: "string option"
  nativeAmount :: rat

record EnhancedTokenTransaction =
  signature :: string
  timestamp :: int
  fee :: rat
  feePayer :: string
  description :: "string option"
  txType :: "string option"
  source :: "string option"
  tokenTransfers :: "TokenTransfer list"
  nativeTransfers :: "NativeTransfer list"

text \<open>
  An element of the array the parsing endpoint returns (\<open>parsedTx: any\<close>): \<open>None\<close> for a
  missing or falsy field. \<open>orElse v d\<close> is \<open>v || d\<close> on an optional string.
\<close>

record ParsedTx =
  p_signature :: "string option"
  p_timestamp :: int
  p_fee :: "rat option"
  p_feePayer :: "string option"
  p_description :: "string option"
  p_type :: "string option"
  p_source :: "string option"
  p_tokenTransfers :: "TokenTransfer list option"
  p_nativeTransfers :: "NativeTransfer list option"

definition truthy :: "string option \<Rightarrow> bool" where
  "truthy v = (case v of None \<Rightarrow> False | Some s \<Rightarrow> s \<noteq> [])"

definition orElse :: "string option \<Rightarrow> string \<Rightarrow> string" where
  "orElse v d = (case v of None \<Rightarrow> d | Some s \<Rightarrow> if s = [] then d else s)"

text \<open>The filter of lines 502 and 735: \<open>parsedTx && parsedTx.signature\<close>.\<close>

definition hasSignature :: "ParsedTx option \<Rightarrow> bool" where
  "hasSignature x = (case x of None \<Rightarrow> False | Some t \<Rightarrow> truthy (p_signature t))"

text \<open>The object literal of lines 503-523 (and 736-756).\<close>

definition toEnhanced :: "ParsedTx \<Rightarrow> EnhancedTokenTransaction" where
  "toEnhanced t =
     \<lparr>signature = orElse (p_signature t) [],
      timestamp = p_timestamp t * 1000,
      fee = (case p_fee t of None \<Rightarrow> 0 | Some f \<Rightarrow> f),
      feePayer = orElse (p_feePayer t) [],
      description = Some (orElse (p_description t) []),
      txType = Some (orElse (p_type t) ''UNKNOWN''),
      source = Some (orElse (p_source t) ''UNKNOWN''),
      tokenTransfers = (case p_tokenTransfers t of None \<Rightarrow> [] | Some ts \<Rightarrow> ts),
      nativeTransfers = (case p_nativeTransfers t of None \<Rightarrow> [] | Some ts \<Rightarrow> ts)\<rparr>"

fun dropNulls :: "'a option list \<Rightarrow> 'a list" where
  "dropNulls [] = []"
| "dropNulls (None # xs) = dropNulls xs"
| "dropNulls (Some x # xs) = x # dropNulls xs"

definition parsedTransactions :: "ParsedTx option list \<Rightarrow> EnhancedTokenTransaction list" where
  "parsedTransactions data = map toEnhanced (dropNulls (filter hasSignature data))"

section \<open>Batch parsing\<close>

text \<open>
  \<open>parseTransactionsWithHelius\<close>, lines 452-557. \<open>send batch\<close> is what
  \<open>await fetchWithRetry(url, {body: {transactions: batch}})\<close> settles to. A response carries
  its text and what \<open>response.json()\<close> settles to. The loop returns the accumulated
  \<open>results\<close> together with the batches it sent, in order, and the number of
  \<open>delay(1000)\<close> pauses it made. Nothing outside the inner
  \<open>try\<close> can throw, so the outer \<open>catch\<close> (which returns the empty list) has no branch here.
\<close>

datatype 'a json = JArray "'a list" | NotArray

record HeliusBody =
  text_of :: string
  json_of :: "thrown + (ParsedTx option) json"

definition mentionsRateLimit :: "thrown \<Rightarrow> bool" where
  "mentionsRateLimit e =
     (case e of Error m \<Rightarrow> str_includes m ''rate limit'' | NonError \<Rightarrow> False)"

text \<open>The inner \<open>try\<close> block for one batch: \<open>Inl\<close> what it throws, \<open>Inr\<close> the records to push
  (\<open>None\<close> for the \<open>continue\<close> of line 498).\<close>

definition parseBatch ::
  "thrown + HeliusBody response \<Rightarrow> thrown + EnhancedTokenTransaction list option" where
  "parseBatch r =
     (case r of
        Inl e \<Rightarrow> Inl e
      | Inr response \<Rightarrow>
          if \<not> ok response then
            (if status response = 429
             then Inl (Error (''Rate limit exceeded: '' @ text_of (body response)))
             else Inl (Error (''Helius API error '' @ show_nat (status response) @ '': ''
                              @ text_of (body response))))
          else
            (case json_of (body response) of
               Inl e \<Rightarrow> Inl e
             | Inr NotArray \<Rightarrow> Inr None
             | Inr (JArray data) \<Rightarrow> Inr (Some (parsedTransactions data))))"

record parse_run =
  results :: "EnhancedTokenTransaction list"
  sent :: "string list list"
  pauses :: nat

function parse_loop ::
  "(string list \<Rightarrow> thrown + HeliusBody response) \<Rightarrow> string list \<Rightarrow> nat \<Rightarrow> parse_run \<Rightarrow> parse_run"
where
  "parse_loop send signatures i run =
     (if i < length signatures then
        (let batch = take 3 (drop i signatures);
             run' = run\<lparr>sent := sent run @ [batch]\<rparr>
         in case parseBatch (send batch) of
              Inr None \<Rightarrow> parse_loop send signatures (i + 3) run'
            | Inr (Some txs) \<Rightarrow>
                parse_loop send signatures (i + 3)
                  (run'\<lparr>results := results run' @ txs,
                         pauses := (if i + 3 < length signatures then Suc (pauses run')
                                    else pauses run')\<rparr>)
            | Inl e \<Rightarrow>
                if mentionsRateLimit e then run'
                else parse_loop send signatures (i + 3) run')
      else run)"
  by pat_completeness auto
termination
  by (relation "measure (\<lambda>(send, signatures, i, run). length signatures - i)") auto

declare parse_loop.simps [simp del]

definition parseTransactionsWithHelius ::
  "(string list \<Rightarrow> thrown + HeliusBody response) \<Rightarrow> string list \<Rightarrow> parse_run" where
  "parseTransactionsWithHelius send signatures =
     (if length signatures = 0 then \<lparr>results = [], sent = [], pauses = 0\<rparr>
      else parse_loop send signatures 0 \<lparr>results = [], sent = [], pauses = 0\<rparr>)"

section \<open>Token figures\<close>

text \<open>
  A number of the program that comes out of a division, a product or a power is a double:
  a finite value, an infinity or \<open>NaN\<close>. A finite double is a rational number, and
  \<open>Fin 0\<close> stands for both zeros. The arithmetic of doubles itself (rounding, overflow to an
  infinity, underflow to zero, division by zero) is not defined here: the functions that
  compute with doubles take the operations as a parameter, and what is proved of them holds
  for every choice of the operations, that of IEEE 754 among them. \<open>fnum\<close> is the
  conversion of the decimal string of an unsigned integer to a number, which \<open>/\<close> applies
  to a string operand.
\<close>

datatype jsnum = Fin rat | PosInf | NegInf | NaN

record float_ops =
  fdiv :: "jsnum \<Rightarrow> jsnum \<Rightarrow> jsnum"
  ftimes :: "jsnum \<Rightarrow> jsnum \<Rightarrow> jsnum"
  fpow :: "jsnum \<Rightarrow> jsnum \<Rightarrow> jsnum"
  fnum :: "nat \<Rightarrow> jsnum"

text \<open>\<open>!x\<close> on a number, and the comparisons \<open>x > 0\<close> and \<open>x < 0\<close>.\<close>

definition js_falsy :: "jsnum \<Rightarrow> bool" where
  "js_falsy x = (x = Fin 0 \<or> x = NaN)"



text \<open>The interfaces \<open>TopHolder\<close>, \<open>RewardMetrics\<close>, \<open>TokenSupply\<close> and \<open>TokenMetadata\<close>.\<close>

record TopHolder =
  address :: string
  amount :: jsnum
  percentage :: jsnum

record RewardMetrics =
  totalRewardPool :: rat
  distributionPercentage :: rat
  totalTransactions :: nat
  nextDistributionTime :: int

record TokenSupply =
  totalSupply :: rat
  circulatingSupply :: rat
  burnedSupply :: rat

record TokenMetadata =
  name :: string
  symbol :: string
  decimals :: nat
  md_description :: string
  website :: string
  logoURI :: string
  tags :: "string list"

section \<open>Top holders\<close>

text \<open>
  \<open>getTopHolders\<close>, lines 828-865. The two \<open>rpcCall\<close>s are given by what they settle to.
  An account of \<open>getTokenLargestAccounts\<close> has an address and a \<open>uiAmount\<close>, which may
  be \<open>null\<close>; the supply has the raw amount (a decimal string of an unsigned integer, which
  \<open>/\<close> converts) and the decimals. A result without \<open>value\<close> makes the property access
  throw a \<open>TypeError\<close>, which the \<open>catch\<close> turns into the empty list like every other throw.
\<close>

record LargestAccount =
  acc_address :: string
  uiAmount :: "jsnum option"

record SupplyValue =
  raw_amount :: nat
  raw_decimals :: nat

text \<open>\<open>supplyResult.value.amount / Math.pow(10, supplyResult.value.decimals)\<close>.\<close>

definition totalSupplyInTokens :: "float_ops \<Rightarrow> SupplyValue \<Rightarrow> jsnum" where
  "totalSupplyInTokens ops v =
     fdiv ops (fnum ops (raw_amount v)) (fpow ops (Fin 10) (Fin (of_nat (raw_decimals v))))"

text \<open>The test of line 847: \<open>!account.uiAmount || account.uiAmount === 0\<close>.\<close>

definition noBalance :: "jsnum option \<Rightarrow> bool" where
  "noBalance u = (case u of None \<Rightarrow> True | Some a \<Rightarrow> js_falsy a \<or> a = Fin 0)"

definition toHolder :: "float_ops \<Rightarrow> jsnum \<Rightarrow> LargestAccount \<Rightarrow> TopHolder option" where
  "toHolder ops supplyTokens account =
     (case uiAmount account of
        None \<Rightarrow> None
      | Some a \<Rightarrow>
          if js_falsy a \<or> a = Fin 0 then None
          else Some \<lparr>address = acc_address account, amount = a,
                     percentage = ftimes ops (fdiv ops a supplyTokens) (Fin 100)\<rparr>)"

definition getTopHolders ::
  "float_ops \<Rightarrow> thrown + LargestAccount list option \<Rightarrow> thrown + SupplyValue option
     \<Rightarrow> TopHolder list" where
  "getTopHolders ops largestAccounts supplyResult =
     (case largestAccounts of
        Inl e \<Rightarrow> []
      | Inr accounts \<Rightarrow>
          (case supplyResult of
             Inl e \<Rightarrow> []
           | Inr None \<Rightarrow> []
           | Inr (Some v) \<Rightarrow>
               (case accounts of
                  None \<Rightarrow> []
                | Some accs \<Rightarrow>
                    dropNulls (map (toHolder ops (totalSupplyInTokens ops v)) (take 25 accs)))))"

section \<open>Wallet activity\<close>

text \<open>
  The part of \<open>getWalletInfo\<close> that derives the activity figures from the wallet's
  transaction history, lines 977-1026: \<open>transactions\<close> is what
  \<open>getAddressTransactionHistory(address, 50)\<close> returned.
\<close>

definition JPG_TOKEN_MINT :: string where
  "JPG_TOKEN_MINT = ''DZJefTBdJ2Ui2YB1bWgi6Bv1TPPVZJMrvGrbCDjtjups''"

definition involvesWallet :: "string \<Rightarrow> EnhancedTokenTransaction \<Rightarrow> bool" where
  "involvesWallet addr tx =
     (feePayer tx = addr
      \<or> list_ex (\<lambda>transfer. fromUserAccount transfer = Some addr \<or> toUserAccount transfer = Some addr)
           (tokenTransfers tx)
      \<or> list_ex (\<lambda>transfer. nativeFrom transfer = Some addr \<or> nativeTo transfer = Some addr)
           (nativeTransfers tx))"

definition isJpgTransfer :: "TokenTransfer \<Rightarrow> bool" where
  "isJpgTransfer t = (mint t = JPG_TOKEN_MINT)"

definition isJpgTransaction :: "EnhancedTokenTransaction \<Rightarrow> bool" where
  "isJpgTransaction tx = list_ex isJpgTransfer (tokenTransfers tx)"

text \<open>The two nested \<open>for\<close> loops of lines 1013-1023, as folds over the running total.\<close>

definition addTransfers :: "rat \<Rightarrow> EnhancedTokenTransaction \<Rightarrow> rat" where
  "addTransfers volume tx =
     foldl (\<lambda>acc transfer. acc + \<bar>tokenAmount transfer\<bar>) volume
       (filter isJpgTransfer (tokenTransfers tx))"

record WalletActivity =
  w_totalTransactions :: nat
  w_lastTransaction :: "int option"
  w_totalVolume :: rat
  w_averageTransactionSize :: rat

definition walletActivity :: "string \<Rightarrow> EnhancedTokenTransaction list \<Rightarrow> WalletActivity" where
  "walletActivity addr transactions =
     (let walletTransactions = filter (involvesWallet addr) transactions;
          jpgTransactions = filter isJpgTransaction transactions;
          totalTransactions = length walletTransactions;
          lastTransaction =
            (case walletTransactions of [] \<Rightarrow> None | tx # _ \<Rightarrow> Some (timestamp tx));
          totalVolume = foldl addTransfers 0 jpgTransactions;
          averageTransactionSize =
            (if totalTransactions > 0 then totalVolume / of_nat totalTransactions else 0)
      in \<lparr>w_totalTransactions = totalTransactions,
          w_lastTransaction = lastTransaction,
          w_totalVolume = totalVolume,
          w_averageTransactionSize = averageTransactionSize\<rparr>)"

section \<open>Token metadata and its cache\<close>

text \<open>
  \<open>getTokenMetadata\<close>, lines 27-120. The module variables \<open>tokenMetadataCache\<close> and
  \<open>tokenMetadataCacheTime\<close> are the state; \<open>now\<close> is what \<open>Date.now()\<close> returns at the
  start of the call. The upstream of one call is what its two requests would settle to:
  \<open>metadataFetch\<close> is \<open>fetchWithRetry\<close> followed by \<open>response.json()\<close> and
  \<open>supplyRpc\<close> is \<open>rpcCall("getTokenSupply")\<close>. The function returns the metadata, the
  new state and the number of upstream requests it issued.

  Of the parsed reply, \<open>entry\<close> is \<open>metadataData[0]\<close> (\<open>None\<close> when the reply or its first
  element is falsy); \<open>onChainMetadata\<close> is \<open>None\<close> when falsy, \<open>Some None\<close> when it is
  there without \<open>metadata.data\<close> (reading a property of \<open>undefined\<close> throws a
  \<open>TypeError\<close>), and \<open>Some (Some d)\<close> with the data otherwise.
\<close>

record OnChainData =
  oc_name :: "string option"
  oc_symbol :: "string option"
  oc_decimals :: "nat option"
  oc_description :: "string option"

record OffChainData =
  off_description :: "string option"
  off_website :: "string option"
  off_image :: "string option"
  off_tags :: "string list option"

record MetadataEntry =
  onChainMetadata :: "OnChainData option option"
  offChainMetadata :: "OffChainData option"

record Upstream =
  metadataFetch :: "thrown + MetadataEntry option"
  supplyRpc :: "thrown + SupplyValue option"

record MetadataCache =
  tokenMetadataCache :: "TokenMetadata option"
  tokenMetadataCacheTime :: int

definition CACHE_DURATION :: int where
  "CACHE_DURATION = 5 * 60 * 1000"

definition initialCache :: MetadataCache where
  "initialCache = \<lparr>tokenMetadataCache = None, tokenMetadataCacheTime = 0\<rparr>"

definition decimalsOr6 :: "nat option \<Rightarrow> nat" where
  "decimalsOr6 d = (case d of None \<Rightarrow> 6 | Some n \<Rightarrow> if n = 0 then 6 else n)"

text \<open>\<open>offChainData?.f\<close>: the field of the optional off-chain object.\<close>

definition offField :: "OffChainData option \<Rightarrow> (OffChainData \<Rightarrow> 'a option) \<Rightarrow> 'a option" where
  "offField off f = (case off of None \<Rightarrow> None | Some x \<Rightarrow> f x)"

definition fromOnChain :: "OnChainData \<Rightarrow> OffChainData option \<Rightarrow> TokenMetadata" where
  "fromOnChain d off =
     \<lparr>name = orElse (oc_name d) ''JPG'',
      symbol = orElse (oc_symbol d) ''JPG'',
      decimals = decimalsOr6 (oc_decimals d),
      md_description =
        (if truthy (offField off off_description) then orElse (offField off off_description) []
         else orElse (oc_description d) ''Jupiter Printing Glitch Token''),
      website = orElse (offField off off_website) [],
      logoURI = orElse (offField off off_image) [],
      tags = (case offField off off_tags of None \<Rightarrow> [] | Some ts \<Rightarrow> ts)\<rparr>"

definition rpcFallbackMetadata :: "nat option \<Rightarrow> TokenMetadata" where
  "rpcFallbackMetadata d =
     \<lparr>name = ''JPG'', symbol = ''JPG'', decimals = decimalsOr6 d,
      md_description = ''Jupiter Printing Glitch Token'',
      website = [], logoURI = [], tags = []\<rparr>"

text \<open>The literal of the \<open>catch\<close> block, lines 104-112.\<close>

definition hardcodedMetadata :: TokenMetadata where
  "hardcodedMetadata =
     \<lparr>name = ''IPG'', symbol = ''IPG'', decimals = 6,
      md_description = ''Jupiter Printing Glitch Token'',
      website = [], logoURI = [], tags = []\<rparr>"

text \<open>The \<open>try\<close> block: \<open>Inl\<close> when it throws, else the metadata; with the requests issued.\<close>

definition onChainOf :: "MetadataEntry option \<Rightarrow> OnChainData option option" where
  "onChainOf reply = (case reply of None \<Rightarrow> None | Some entry \<Rightarrow> onChainMetadata entry)"

definition offChainOf :: "MetadataEntry option \<Rightarrow> OffChainData option" where
  "offChainOf reply = (case reply of None \<Rightarrow> None | Some entry \<Rightarrow> offChainMetadata entry)"

definition tryFetchMetadata :: "Upstream \<Rightarrow> (thrown + TokenMetadata) \<times> nat" where
  "tryFetchMetadata up =
     (case metadataFetch up of
        Inl e \<Rightarrow> (Inl e, 1)
      | Inr reply \<Rightarrow>
          (case onChainOf reply of
             Some None \<Rightarrow> (Inl (Error ''TypeError''), 1)
           | Some (Some d) \<Rightarrow> (Inr (fromOnChain d (offChainOf reply)), 1)
           | None \<Rightarrow>
               (case supplyRpc up of
                  Inl e \<Rightarrow> (Inl e, 2)
                | Inr None \<Rightarrow> (Inl (Error ''TypeError''), 2)
                | Inr (Some v) \<Rightarrow> (Inr (rpcFallbackMetadata (Some (raw_decimals v))), 2))))"

definition cacheValid :: "MetadataCache \<Rightarrow> int \<Rightarrow> bool" where
  "cacheValid c now =
     (tokenMetadataCache c \<noteq> None \<and> now - tokenMetadataCacheTime c < CACHE_DURATION)"

definition getTokenMetadata ::
  "MetadataCache \<Rightarrow> int \<Rightarrow> Upstream \<Rightarrow> TokenMetadata \<times> MetadataCache \<times> nat" where
  "getTokenMetadata c now up =
     (case tokenMetadataCache c of
        Some cached \<Rightarrow>
          if now - tokenMetadataCacheTime c < CACHE_DURATION then (cached, c, 0)
          else
            (case tryFetchMetadata up of
               (Inr m, n) \<Rightarrow> (m, \<lparr>tokenMetadataCache = Some m, tokenMetadataCacheTime = now\<rparr>, n)
             | (Inl e, n) \<Rightarrow>
                 (hardcodedMetadata,
                  \<lparr>tokenMetadataCache = Some hardcodedMetadata, tokenMetadataCacheTime = now\<rparr>, n))
      | None \<Rightarrow>
          (case tryFetchMetadata up of
             (Inr m, n) \<Rightarrow> (m, \<lparr>tokenMetadataCache = Some m, tokenMetadataCacheTime = now\<rparr>, n)
           | (Inl e, n) \<Rightarrow>
               (hardcodedMetadata,
                \<lparr>tokenMetadataCache = Some hardcodedMetadata, tokenMetadataCacheTime = now\<rparr>, n)))"

section \<open>The data provider\<close>

text \<open>
  \<open>DataProvider\<close> of \<open>data-provider.tsx\<close> (the third unnamed source file), lines 37-180.
  The seven \<open>useState\<close> cells are one record; a setter call is an update of its field.
  The cell \<open>supply\<close> is the field \<open>supply_data\<close> (\<open>supply\<close> is a reserved word).
\<close>

record DataState =
  transactions :: "EnhancedTokenTransaction list"
  holders :: "TopHolder list"
  supply_data :: "TokenSupply option"
  metrics :: "RewardMetrics option"
  tokenMetadata :: "TokenMetadata option"
  loading :: bool
  error :: "thrown option"

definition initialState :: DataState where
  "initialState =
     \<lparr>transactions = [], holders = [], supply_data = None, metrics = None, tokenMetadata = None,
      loading = True, error = None\<rparr>"

subsection \<open>Merging a poll into the window\<close>

text \<open>
  The updater passed to \<open>setTransactions\<close>, lines 94-125. \<open>String.prototype.trim\<close> removes
  white space and line terminators at both ends; of those, the characters of the first 256
  code points are the ones a \<open>char\<close> can hold.
\<close>

definition is_space :: "char \<Rightarrow> bool" where
  "is_space c = (of_char c \<in> {9, 10, 11, 12, 13, 32, 160 :: nat})"

definition trim :: "string \<Rightarrow> string" where
  "trim s = rev (dropWhile is_space (rev (dropWhile is_space s)))"

definition hasTransfers :: "EnhancedTokenTransaction \<Rightarrow> bool" where
  "hasTransfers tx = (length (tokenTransfers tx) > 0 \<or> length (nativeTransfers tx) > 0)"

definition isDescribed :: "EnhancedTokenTransaction \<Rightarrow> bool" where
  "isDescribed tx =
     (txType tx \<noteq> Some ''UNKNOWN'' \<and> truthy (txType tx) \<and> truthy (description tx)
      \<and> (case description tx of None \<Rightarrow> False | Some d \<Rightarrow> trim d \<noteq> []))"

definition validNewTransactions ::
  "EnhancedTokenTransaction list \<Rightarrow> EnhancedTokenTransaction list \<Rightarrow> EnhancedTokenTransaction list"
where
  "validNewTransactions prev txs =
     (let existingSignatures = set (map signature prev);
          newTransactions = filter (\<lambda>tx. signature tx \<notin> existingSignatures) txs
      in filter isDescribed (filter hasTransfers newTransactions))"

definition mergeTransactions ::
  "EnhancedTokenTransaction list \<Rightarrow> EnhancedTokenTransaction list \<Rightarrow> EnhancedTokenTransaction list"
where
  "mergeTransactions prev txs =
     (if length (validNewTransactions prev txs) = 0 then prev
      else take 50 (validNewTransactions prev txs @ prev))"

subsection \<open>The static refresh\<close>

text \<open>
  \<open>fetchStaticData\<close>, lines 51-73. Each of the four requests is given by the moment it
  settles and what it settles to. \<open>Promise.all\<close> fulfils with the four values when all four
  fulfil, and otherwise rejects with the reason of the request that rejects first (of two
  that reject at the same moment, the one listed first).
\<close>

fun earliest :: "(nat \<times> thrown) list \<Rightarrow> (nat \<times> thrown) option" where
  "earliest [] = None"
| "earliest (x # xs) =
     (case earliest xs of
        None \<Rightarrow> Some x
      | Some y \<Rightarrow> if fst x \<le> fst y then Some x else Some y)"

definition rejection :: "nat \<times> (thrown + 'a) \<Rightarrow> (nat \<times> thrown) list" where
  "rejection p = (case snd p of Inl e \<Rightarrow> [(fst p, e)] | Inr v \<Rightarrow> [])"

definition promise_all4 ::
  "nat \<times> (thrown + 'a) \<Rightarrow> nat \<times> (thrown + 'b) \<Rightarrow> nat \<times> (thrown + 'c) \<Rightarrow> nat \<times> (thrown + 'd)
     \<Rightarrow> thrown + ('a \<times> 'b \<times> 'c \<times> 'd)" where
  "promise_all4 a b c d =
     (case (snd a, snd b, snd c, snd d) of
        (Inr w, Inr x, Inr y, Inr z) \<Rightarrow> Inr (w, x, y, z)
      | _ \<Rightarrow>
          (case earliest (rejection a @ rejection b @ rejection c @ rejection d) of
             Some (t, e) \<Rightarrow> Inl e
           | None \<Rightarrow> Inl NonError))"

text \<open>\<open>e instanceof Error ? e : new Error(msg)\<close>.\<close>

definition asError :: "thrown \<Rightarrow> string \<Rightarrow> thrown" where
  "asError e msg = (case e of Error m \<Rightarrow> Error m | NonError \<Rightarrow> Error msg)"

text \<open>The part of \<open>fetchStaticData\<close> before its \<open>await\<close>, and the part after it.\<close>

definition fetchStaticData_begin :: "DataState \<Rightarrow> DataState" where
  "fetchStaticData_begin st = st\<lparr>error := None\<rparr>"

definition fetchStaticData_settled ::
  "thrown + (RewardMetrics \<times> TokenSupply \<times> TopHolder list \<times> TokenMetadata) \<Rightarrow> DataState \<Rightarrow> DataState"
where
  "fetchStaticData_settled r st =
     (case r of
        Inr (metricsData, supplyData, holdersData, metadataData) \<Rightarrow>
          st\<lparr>metrics := Some metricsData, supply_data := Some supplyData, holders := holdersData,
             tokenMetadata := Some metadataData, loading := False\<rparr>
      | Inl e \<Rightarrow>
          st\<lparr>error := Some (asError e ''Failed to fetch static data.''), loading := False\<rparr>)"

definition fetchStaticData ::
  "nat \<times> (thrown + RewardMetrics) \<Rightarrow> nat \<times> (thrown + TokenSupply) \<Rightarrow> nat \<times> (thrown + TopHolder list)
     \<Rightarrow> nat \<times> (thrown + TokenMetadata) \<Rightarrow> DataState \<Rightarrow> DataState" where
  "fetchStaticData a b c d st =
     fetchStaticData_settled (promise_all4 a b c d) (fetchStaticData_begin st)"

subsection \<open>The transaction poll\<close>

text \<open>
  \<open>fetchTransactions\<close>, lines 80-144: the part before \<open>await\<close> and the part after it, which
  reads the variable \<open>isMounted\<close> of the enclosing effect. \<open>pollLimit\<close> is the \<open>limit\<close> it
  asks for. The variable \<open>lastSignature\<close> is written and never read, and is left out.
\<close>

definition pollLimit :: "bool \<Rightarrow> nat" where
  "pollLimit isInitial = (if isInitial then 5 else 10)"

definition fetchTransactions_begin :: "bool \<Rightarrow> DataState \<Rightarrow> DataState" where
  "fetchTransactions_begin isInitial st =
     (if isInitial then st\<lparr>loading := True\<rparr> else st)\<lparr>error := None\<rparr>"

definition fetchTransactions_settled ::
  "bool \<Rightarrow> bool \<Rightarrow> thrown + EnhancedTokenTransaction list \<Rightarrow> DataState \<Rightarrow> DataState" where
  "fetchTransactions_settled isMounted isInitial r st =
     (case r of
        Inr txs \<Rightarrow>
          if \<not> isMounted then st
          else
            (let st' = st\<lparr>transactions := mergeTransactions (transactions st) txs\<rparr>
             in if isInitial then st'\<lparr>loading := False\<rparr> else st')
      | Inl e \<Rightarrow>
          if \<not> isMounted then st
          else
            (let st' = st\<lparr>error := Some (asError e ''Failed to fetch transactions.'')\<rparr>
             in if isInitial then st'\<lparr>loading := False\<rparr> else st'))"

subsection \<open>Mounting and teardown\<close>

text \<open>
  The two effects, lines 76-163. The provider is its state, the variable \<open>isMounted\<close> of the
  polling effect and whether each interval timer is set. \<open>mount\<close> runs both effects up to
  the first \<open>await\<close> of each fetch; \<open>unmount\<close> runs both cleanup functions. A response
  that arrives is handed to the continuation of the fetch that awaits it.
\<close>

record Provider =
  state :: DataState
  isMounted :: bool
  pollingTimer :: bool
  staticTimer :: bool

definition mount :: "DataState \<Rightarrow> Provider" where
  "mount st =
     \<lparr>state = fetchStaticData_begin (fetchTransactions_begin True st),
      isMounted = True, pollingTimer = True, staticTimer = True\<rparr>"

definition unmount :: "Provider \<Rightarrow> Provider" where
  "unmount p = p\<lparr>isMounted := False, pollingTimer := False, staticTimer := False\<rparr>"

definition pollTick :: "Provider \<Rightarrow> Provider" where
  "pollTick p =
     (if pollingTimer p then p\<lparr>state := fetchTransactions_begin False (state p)\<rparr> else p)"

definition staticTick :: "Provider \<Rightarrow> Provider" where
  "staticTick p = (if staticTimer p then p\<lparr>state := fetchStaticData_begin (state p)\<rparr> else p)"

definition transactionsArrived ::
  "bool \<Rightarrow> thrown + EnhancedTokenTransaction list \<Rightarrow> Provider \<Rightarrow> Provider" where
  "transactionsArrived isInitial r p =
     p\<lparr>state := fetchTransactions_settled (isMounted p) isInitial r (state p)\<rparr>"

definition staticDataArrived ::
  "thrown + (RewardMetrics \<times> TokenSupply \<times> TopHolder list \<times> TokenMetadata) \<Rightarrow> Provider \<Rightarrow> Provider"
where
  "staticDataArrived r p = p\<lparr>state := fetchStaticData_settled r (state p)\<rparr>"

section \<open>Running the queue to the end\<close>

text \<open>
  The drain loop of \<open>process\<close>, resumed at each of its two suspension points until it leaves
  the \<open>while\<close> loop and clears \<open>processing\<close>. Each resumption either ends the loop or
  shortens the queue, so the loop ends.
\<close>

function drain :: "'a RequestQueue \<Rightarrow> 'a RequestQueue" where
  "drain q =
     (if \<not> processing q then q
      else if sleeping q then drain (delay_elapsed q)
      else drain (batch_settled q))"
  by pat_completeness auto
termination
  by (relation "measure (\<lambda>q. if processing q
                               then 2 * length (queue q) + (if sleeping q then 1 else 2)
                               else 0)")
     (auto simp: delay_elapsed_def batch_settled_def start_batch_def batchSize_def Let_def
           neq_Nil_conv)

declare drain.simps [simp del]

text \<open>
  The wait that follows a failed attempt \<open>i\<close> of \<open>retryWithBackoff\<close> when another attempt
  is left, read off lines 336-347.
\<close>

definition delayAfter :: "(nat \<Rightarrow> thrown + 'a) \<Rightarrow> rat \<Rightarrow> (nat \<Rightarrow> rat) \<Rightarrow> nat \<Rightarrow> rat" where
  "delayAfter op baseDelay rnd i =
     (case op i of
        Inl e \<Rightarrow> if isRateLimitError e then baseDelay * 2 ^ i + rnd i * 1000 else baseDelay
      | Inr v \<Rightarrow> 0)"

text \<open>
  What holds of the queue between two pieces of code: the loop sleeps only while it runs and
  with no batch in flight, and outside the loop the queue is empty and nothing is in flight.
\<close>

definition queue_ok :: "'a RequestQueue \<Rightarrow> bool" where
  "queue_ok q =
     ((sleeping q \<longrightarrow> processing q \<and> inflight q = [])
      \<and> (\<not> processing q \<longrightarrow> queue q = [] \<and> inflight q = []))"

section \<open>Inputs used in the examples\<close>

text \<open>A transport that answers 429 twice and then 200, one that always answers 500.\<close>

definition net429 :: "nat \<Rightarrow> thrown + unit response" where
  "net429 i = (if i < 2 then Inr \<lparr>status = 429, body = ()\<rparr> else Inr \<lparr>status = 200, body = ()\<rparr>)"

definition rpc429 :: "nat \<Rightarrow> thrown + (thrown + unit rpc_reply) response" where
  "rpc429 i =
     (if i < 2 then Inr \<lparr>status = 429, body = Inr (RpcError [])\<rparr>
      else Inr \<lparr>status = 200, body = Inr (RpcResult ())\<rparr>)"

definition rpcLimited :: "nat \<Rightarrow> thrown + (thrown + unit rpc_reply) response" where
  "rpcLimited i = Inr \<lparr>status = 200, body = Inr (RpcError ''rate limit reached'')\<rparr>"

definition net500 :: "nat \<Rightarrow> thrown + unit response" where
  "net500 i = Inr \<lparr>status = 500, body = ()\<rparr>"

definition noJitter :: "nat \<Rightarrow> rat" where
  "noJitter i = 0"

definition someCall :: "nat \<Rightarrow> unit entry" where
  "someCall k = \<lparr>ident = k, fn = (\<lambda>u. Inr ())\<rparr>"

text \<open>Two transactions with a transfer, a type and a description, and one without a type.\<close>

definition transferA :: TokenTransfer where
  "transferA =
     \<lparr>fromUserAccount = Some ''alice'', toUserAccount = Some ''bob'',
      mint = JPG_TOKEN_MINT, tokenAmount = - 10\<rparr>"

definition txA :: EnhancedTokenTransaction where
  "txA =
     \<lparr>signature = ''sigA'', timestamp = 2000, fee = 5000, feePayer = ''alice'',
      description = Some ''swap'', txType = Some ''SWAP'', source = Some ''JUPITER'',
      tokenTransfers = [transferA], nativeTransfers = []\<rparr>"

definition txB :: EnhancedTokenTransaction where
  "txB =
     \<lparr>signature = ''sigB'', timestamp = 1000, fee = 5000, feePayer = ''alice'',
      description = Some ''pay'', txType = Some ''TRANSFER'', source = Some ''SYSTEM_PROGRAM'',
      tokenTransfers = [],
      nativeTransfers = [\<lparr>nativeFrom = Some ''alice'', nativeTo = Some ''carol'', nativeAmount = 1\<rparr>]\<rparr>"

text \<open>A provider state that holds data of an earlier refresh, and the data of a later one.\<close>

definition metricsOld :: RewardMetrics where
  "metricsOld =
     \<lparr>totalRewardPool = 3, distributionPercentage = 50, totalTransactions = 10,
      nextDistributionTime = 3600000\<rparr>"

definition metricsNew :: RewardMetrics where
  "metricsNew =
     \<lparr>totalRewardPool = 4, distributionPercentage = 50, totalTransactions = 10,
      nextDistributionTime = 7200000\<rparr>"

definition supplyOld :: TokenSupply where
  "supplyOld = \<lparr>totalSupply = 1000000000, circulatingSupply = 1000000000, burnedSupply = 0\<rparr>"

definition supplyNew :: TokenSupply where
  "supplyNew = \<lparr>totalSupply = 999000000, circulatingSupply = 999000000, burnedSupply = 0\<rparr>"

definition holderOld :: TopHolder where
  "holderOld = \<lparr>address = ''alice'', amount = Fin 10000000, percentage = Fin 1\<rparr>"

definition loadedState :: DataState where
  "loadedState =
     \<lparr>transactions = [txB], holders = [holderOld], supply_data = Some supplyOld,
      metrics = Some metricsOld, tokenMetadata = Some (rpcFallbackMetadata None),
      loading = False, error = None\<rparr>"

definition metricsFailure :: thrown where
  "metricsFailure = Error ''Failed to fetch real reward metrics from Solana blockchain''"

text \<open>
  Six signatures, and an upstream that answers 429 to every request for the first three
  and parses every other batch in full.
\<close>

definition parsedOf :: "string \<Rightarrow> ParsedTx" where
  "parsedOf sig =
     \<lparr>p_signature = Some sig, p_timestamp = 1700000000, p_fee = Some 5000,
      p_feePayer = Some ''alice'', p_description = Some ''swap'', p_type = Some ''SWAP'',
      p_source = Some ''JUPITER'', p_tokenTransfers = Some [transferA],
      p_nativeTransfers = None\<rparr>"

definition heliusOk :: "string list \<Rightarrow> HeliusBody response" where
  "heliusOk batch =
     \<lparr>status = 200,
      body = \<lparr>text_of = [], json_of = Inr (JArray (map (\<lambda>sig. Some (parsedOf sig)) batch))\<rparr>\<rparr>"

definition heliusLimited :: "HeliusBody response" where
  "heliusLimited =
     \<lparr>status = 429, body = \<lparr>text_of = ''Too Many Requests'', json_of = Inr NotArray\<rparr>\<rparr>"

definition sigs6 :: "string list" where
  "sigs6 = [''s1'', ''s2'', ''s3'', ''s4'', ''s5'', ''s6'']"

definition net6 :: "string list \<Rightarrow> nat \<Rightarrow> thrown + HeliusBody response" where
  "net6 batch i = (if batch = [''s1'', ''s2'', ''s3''] then Inr heliusLimited else Inr (heliusOk batch))"

definition send6 :: "string list \<Rightarrow> thrown + HeliusBody response" where
  "send6 batch = outcome (fetchWithRetry_body (net6 batch) noJitter)"

text \<open>The transfers of the tracked token in a history, transaction by transaction.\<close>

definition jpgTransfersOf :: "EnhancedTokenTransaction list \<Rightarrow> TokenTransfer list" where
  "jpgTransfersOf txs = filter isJpgTransfer (concat (map tokenTransfers txs))"

text \<open>An upstream on which both requests fail, one on which the first succeeds.\<close>

definition upstreamDown :: Upstream where
  "upstreamDown =
     \<lparr>metadataFetch = Inl (Error ''HTTP error! status: 503''),
      supplyRpc = Inl (Error ''RPC Error: unavailable'')\<rparr>"

definition upstreamUp :: Upstream where
  "upstreamUp =
     \<lparr>metadataFetch =
        Inr (Some \<lparr>onChainMetadata =
                      Some (Some \<lparr>oc_name = Some ''Glitch'', oc_symbol = Some ''JPG'',
                                   oc_decimals = Some 6, oc_description = None\<rparr>),
                   offChainMetadata = None\<rparr>),
      supplyRpc = Inr (Some \<lparr>raw_amount = 1000000000000000, raw_decimals = 6\<rparr>)\<rparr>"

text \<open>A reply of \<open>getTokenLargestAccounts\<close> with three accounts, and one with a negative amount.\<close>

definition supplyValue :: SupplyValue where
  "supplyValue = \<lparr>raw_amount = 100000000000000, raw_decimals = 6\<rparr>"


definition negativeAccount :: "LargestAccount list" where
  "negativeAccount = [\<lparr>acc_address = ''odd'', uiAmount = Some (Fin (- 5))\<rparr>]"

section \<open>Properties of the request governor\<close>

subsection \<open>The retry loop\<close>

lemma retry_loop_fail:
  assumes "\<forall>j. i \<le> j \<and> j < n \<longrightarrow> isl (op j)" and "i < n"
  shows "outcome (retry_loop op n b rnd i ws) = op (n - 1)
       \<and> attempts (retry_loop op n b rnd i ws) = n"
  using assms
proof (induction op n b rnd i ws rule: retry_loop.induct)
  case (1 op n b rnd i ws)
  from "1.prems" obtain e where e: "op i = Inl e"
    by (metis isl_def le_refl)
  show ?case
  proof (cases "Suc i = n")
    case True
    then have "n - 1 = i" by simp
    with True e "1.prems" show ?thesis
      by (simp add: retry_loop.simps [of op n b rnd i ws])
  next
    case False
    with "1.prems" have lt: "Suc i < n" by simp
    have rest: "\<forall>j. Suc i \<le> j \<and> j < n \<longrightarrow> isl (op j)"
      using "1.prems" by simp
    show ?thesis
    proof (cases "isRateLimitError e")
      case True
      from "1.IH"(1) [OF _ e False True rest lt] "1.prems"(2) e False True show ?thesis
        by (simp add: retry_loop.simps [of op n b rnd i ws])
    next
      case nr: False
      from "1.IH"(2) [OF _ e False nr rest lt] "1.prems"(2) e False nr show ?thesis
        by (simp add: retry_loop.simps [of op n b rnd i ws])
    qed
  qed
qed

lemma retry_loop_waits:
  "i \<le> n \<Longrightarrow> waits (retry_loop op n b rnd i ws)
     = ws @ map (delayAfter op b rnd) [i..<attempts (retry_loop op n b rnd i ws) - 1]
   \<and> (i < n \<longrightarrow> i < attempts (retry_loop op n b rnd i ws))
   \<and> attempts (retry_loop op n b rnd i ws) \<le> n"
proof (induction op n b rnd i ws rule: retry_loop.induct)
  case (1 op n b rnd i ws)
  show ?case
  proof (cases "i < n")
    case False
    then show ?thesis using "1.prems" by (subst (1 2 3) retry_loop.simps) simp
  next
    case lt: True
    show ?thesis
    proof (cases "op i")
      case (Inr v)
      then show ?thesis using lt by (simp add: retry_loop.simps [of op n b rnd i ws])
    next
      case (Inl e)
      show ?thesis
      proof (cases "Suc i = n")
        case True
        then show ?thesis using lt Inl by (simp add: retry_loop.simps [of op n b rnd i ws])
      next
        case False
        then have le: "Suc i \<le> n" and lt': "Suc i < n" using lt by simp_all
        define d where "d = delayAfter op b rnd i"
        define r where "r = retry_loop op n b rnd (Suc i) (ws @ [d])"
        have unfold: "retry_loop op n b rnd i ws = r"
          using lt Inl False
          by (simp add: retry_loop.simps [of op n b rnd i ws] r_def d_def delayAfter_def)
        have ih: "waits r = (ws @ [d]) @ map (delayAfter op b rnd) [Suc i..<attempts r - 1]
                  \<and> (Suc i < n \<longrightarrow> Suc i < attempts r) \<and> attempts r \<le> n"
        proof (cases "isRateLimitError e")
          case True
          from "1.IH"(1) [OF lt Inl False True le] Inl True show ?thesis
            by (simp add: r_def d_def delayAfter_def)
        next
          case nr: False
          from "1.IH"(2) [OF lt Inl False nr le] Inl nr show ?thesis
            by (simp add: r_def d_def delayAfter_def)
        qed
        with lt' have big: "i < attempts r - 1" by auto
        have "[i..<attempts r - 1] = i # [Suc i..<attempts r - 1]"
          using big by (rule upt_conv_Cons)
        with ih big show ?thesis
          unfolding unfold by (auto simp add: d_def)
      qed
    qed
  qed
qed

text \<open>
  Every wait of a run is the wait \<open>delayAfter\<close> gives for the attempt before it: the wait
  before attempt \<open>i + 1\<close> is \<open>baseDelay * 2 ^ i\<close> plus the jitter when
  \<open>isRateLimitError\<close> holds of the failure of attempt \<open>i\<close>, and \<open>baseDelay\<close> otherwise.
\<close>

lemma retry_waits:
  "waits (retryWithBackoff op n b rnd)
     = map (delayAfter op b rnd) [0..<attempts (retryWithBackoff op n b rnd) - 1]"
  using retry_loop_waits [of 0 n op b rnd "[]"] by (simp add: retryWithBackoff_def)

lemma jitter_bounds:
  assumes "0 \<le> rnd i" "rnd i < 1" "op i = Inl e" "isRateLimitError e"
  shows "b * 2 ^ i \<le> delayAfter op b rnd i \<and> delayAfter op b rnd i < b * 2 ^ i + 1000"
  using assms by (simp add: delayAfter_def)

lemma flat_delay:
  "op i = Inl e \<Longrightarrow> \<not> isRateLimitError e \<Longrightarrow> delayAfter op b rnd i = b"
  by (simp add: delayAfter_def)

subsection \<open>Delivery to the caller's handle\<close>

lemma drain_delivers:
  "processing q \<Longrightarrow> \<not> sleeping q \<or> inflight q = [] \<Longrightarrow>
     settled (drain q) = settled q @ map (\<lambda>e. (ident e, fn e ())) (inflight q @ queue q)
     \<and> \<not> processing (drain q) \<and> queue (drain q) = []
     \<and> started (drain q) = started q @ map ident (queue q)"
proof (induction q rule: drain.induct)
  case (1 q)
  show ?case
  proof (cases "sleeping q")
    case True
    with "1.prems" have nil: "inflight q = []" by simp
    have eq: "drain q = drain (delay_elapsed q)"
      using "1.prems" True by (subst drain.simps) simp
    show ?thesis
    proof (cases "queue q = []")
      case qn: True
      have "drain (delay_elapsed q) = delay_elapsed q"
        using qn by (subst drain.simps) (simp add: delay_elapsed_def Let_def)
      with eq show ?thesis using qn nil by (simp add: delay_elapsed_def Let_def)
    next
      case False
      have p: "processing (delay_elapsed q)"
        "\<not> sleeping (delay_elapsed q) \<or> inflight (delay_elapsed q) = []"
        using "1.prems" False by (simp_all add: delay_elapsed_def start_batch_def Let_def)
      from "1.IH"(1) [OF _ True p] "1.prems" show ?thesis
        unfolding eq using False nil
        by (simp add: delay_elapsed_def start_batch_def Let_def flip: map_append)
    qed
  next
    case ns: False
    have eq: "drain q = drain (batch_settled q)"
      using "1.prems" ns by (subst drain.simps) simp
    show ?thesis
    proof (cases "queue q = []")
      case True
      have "drain (batch_settled q) = batch_settled q"
        using True by (subst drain.simps) (simp add: batch_settled_def Let_def)
      with eq True show ?thesis by (simp add: batch_settled_def Let_def)
    next
      case False
      have p: "processing (batch_settled q)"
        "\<not> sleeping (batch_settled q) \<or> inflight (batch_settled q) = []"
        using "1.prems" False by (simp_all add: batch_settled_def Let_def)
      from "1.IH"(2) [OF _ ns p] "1.prems" show ?thesis
        unfolding eq using False
        by (simp add: batch_settled_def Let_def)
    qed
  qed
qed

lemma map_of_fresh_append:
  "k \<notin> fst ` set xs \<Longrightarrow> map_of (xs @ ys) k = map_of ys k"
  by (induction xs) auto

lemma map_of_deliver_last:
  "k \<notin> ident ` set es \<Longrightarrow> ident e = k \<Longrightarrow>
     map_of (map (\<lambda>e. (ident e, fn e ())) (es @ [e])) k = Some (fn e ())"
  by (induction es) auto

lemma add_processing: "processing (add q e)"
  by (simp add: add_def process_def start_batch_def Let_def)

lemma add_pending:
  "queue_ok q \<Longrightarrow> inflight (add q e) @ queue (add q e) = inflight q @ queue q @ [e]
     \<and> settled (add q e) = settled q \<and> (\<not> sleeping (add q e) \<or> inflight (add q e) = [])"
  by (auto simp: add_def process_def start_batch_def Let_def queue_ok_def)

lemma handle_after_drain:
  assumes "queue_ok q" "k \<notin> fst ` set (settled q)" "k \<notin> ident ` set (inflight q @ queue q)"
    "ident e = k"
  shows "handle (drain (add q e)) k = Some (fn e ())"
proof -
  from add_pending [OF assms(1)] have
    pend: "inflight (add q e) @ queue (add q e) = inflight q @ queue q @ [e]"
    and st: "settled (add q e) = settled q"
    and sl: "\<not> sleeping (add q e) \<or> inflight (add q e) = []" by auto
  from drain_delivers [OF add_processing sl] have
    "settled (drain (add q e))
       = settled q @ map (\<lambda>e. (ident e, fn e ())) ((inflight q @ queue q) @ [e])"
    by (simp add: pend st)
  moreover have
    "map_of (settled q @ map (\<lambda>e. (ident e, fn e ())) ((inflight q @ queue q) @ [e])) k
       = map_of (map (\<lambda>e. (ident e, fn e ())) ((inflight q @ queue q) @ [e])) k"
    using assms(2) by (rule map_of_fresh_append)
  moreover have
    "map_of (map (\<lambda>e. (ident e, fn e ())) ((inflight q @ queue q) @ [e])) k = Some (fn e ())"
    using assms(3,4) by (rule map_of_deliver_last)
  ultimately show ?thesis
    unfolding handle_def by simp
qed

text \<open>The invariant of the queue holds at the start and after every piece of code.\<close>

lemma queue_ok_steps:
  "queue_ok newRequestQueue"
  "queue_ok q \<Longrightarrow> queue_ok (add q e)"
  "queue_ok q \<Longrightarrow> processing q \<Longrightarrow> \<not> sleeping q \<Longrightarrow> queue_ok (batch_settled q)"
  "queue_ok q \<Longrightarrow> sleeping q \<Longrightarrow> queue_ok (delay_elapsed q)"
  by (auto simp: queue_ok_def newRequestQueue_def add_def process_def start_batch_def
      batch_settled_def delay_elapsed_def Let_def batchSize_def)

text \<open>
  C2. An operation that fails on every attempt is attempted exactly \<open>maxRetries\<close> times, the
  retry ends with the error of the last attempt, and when the governor has run the call the
  caller's handle is rejected with that error.
\<close>

theorem retry_bound:
  assumes "0 < maxRetries"
    and "\<forall>i<maxRetries. op i = Inl (err i)"
    and "queue_ok q"
    and "k \<notin> fst ` set (settled q)"
    and "k \<notin> ident ` set (inflight q @ queue q)"
  shows "attempts (retryWithBackoff op maxRetries baseDelay rnd) = maxRetries
       \<and> outcome (retryWithBackoff op maxRetries baseDelay rnd) = Inl (err (maxRetries - 1))
       \<and> handle (drain (add q \<lparr>ident = k,
              fn = (\<lambda>u. outcome (retryWithBackoff op maxRetries baseDelay rnd))\<rparr>)) k
           = Some (Inl (err (maxRetries - 1)))"
proof -
  have fails: "\<forall>j. 0 \<le> j \<and> j < maxRetries \<longrightarrow> isl (op j)"
    using assms(2) by simp
  from retry_loop_fail [OF fails assms(1)] assms(1,2)
  have run: "attempts (retryWithBackoff op maxRetries baseDelay rnd) = maxRetries"
    "outcome (retryWithBackoff op maxRetries baseDelay rnd) = Inl (err (maxRetries - 1))"
    by (simp_all add: retryWithBackoff_def)
  have "handle (drain (add q \<lparr>ident = k,
              fn = (\<lambda>u. outcome (retryWithBackoff op maxRetries baseDelay rnd))\<rparr>)) k
          = Some (outcome (retryWithBackoff op maxRetries baseDelay rnd))"
    using handle_after_drain [OF assms(3,4,5), of "\<lparr>ident = k,
              fn = (\<lambda>u. outcome (retryWithBackoff op maxRetries baseDelay rnd))\<rparr>"]
    by simp
  with run show ?thesis by simp
qed

theorem retry_bound_witness:
  "attempts (fetchWithRetry_body net500 noJitter) = 3
   \<and> outcome (fetchWithRetry_body net500 noJitter) = Inl (Error ''HTTP error! status: 500'')
   \<and> handle (drain (fetchWithRetry newRequestQueue 7 net500 noJitter)) 7
       = Some (Inl (Error ''HTTP error! status: 500''))"
proof -
  have a: "(0::nat) < 3" by simp
  have b: "\<forall>i<3::nat. fetchAttempt (net500 i) = Inl (Error ''HTTP error! status: 500'')"
    by (simp add: fetchAttempt_def net500_def ok_def show_nat.simps digit_char_def)
  have c: "queue_ok (newRequestQueue :: (unit response) RequestQueue)"
    by (simp add: queue_ok_def newRequestQueue_def)
  have d: "(7::nat) \<notin> fst ` set (settled (newRequestQueue :: (unit response) RequestQueue))"
    by (simp add: newRequestQueue_def)
  have e: "(7::nat) \<notin> ident ` set (inflight (newRequestQueue :: (unit response) RequestQueue)
             @ queue newRequestQueue)"
    by (simp add: newRequestQueue_def)
  from retry_bound [OF a b c d e, of 2000 noJitter] show ?thesis
    unfolding fetchWithRetry_def fetchWithRetry_body_def .
qed

text \<open>
  C1. What the code does when the upstream answers 429: the wrapped fetch throws the
  message \<open>Rate limit exceeded\<close>, which contains neither \<open>429\<close> nor the lower-case
  \<open>rate limit\<close> that \<open>retryWithBackoff\<close> searches for. The failure is not classified as
  rate-limiting, and after two such answers both waits are the flat 2000 ms, where the
  backoff would wait at least 2000 ms and then at least 4000 ms.
\<close>

theorem status_429_waits_flat:
  "fetchAttempt (net429 0) = Inl (Error ''Rate limit exceeded'')
   \<and> isRateLimitError (Error ''Rate limit exceeded'') = False
   \<and> waits (fetchWithRetry_body net429 rnd) = [2000, 2000]
   \<and> delayAfter (\<lambda>i. fetchAttempt (net429 i)) 2000 rnd 1 = 2000
   \<and> waits (rpcCall_body rpc429 rnd) = [2000, 2000]"
  by (simp add: fetchWithRetry_body_def rpcCall_body_def retryWithBackoff_def retry_loop.simps
      net429_def rpc429_def fetchAttempt_def rpcAttempt_def ok_def isRateLimitError_def
      delayAfter_def)

text \<open>
  An error whose message does carry the marker is classified, and then the waits are
  \<open>baseDelay * 2 ^ i\<close> plus the jitter: here a JSON-RPC error object that says
  \<open>rate limit reached\<close>, returned on every attempt.
\<close>

lemma rpc_marker_backoff:
  "waits (rpcCall_body rpcLimited rnd) = [2000 + rnd 0 * 1000, 4000 + rnd 1 * 1000]
   \<and> outcome (rpcCall_body rpcLimited rnd) = Inl (Error ''RPC Error: rate limit reached'')"
  by (simp add: rpcCall_body_def retryWithBackoff_def retry_loop.simps rpcLimited_def
      rpcAttempt_def ok_def isRateLimitError_def)

subsection \<open>Submitting a call\<close>

text \<open>
  C4. \<open>add\<close> appends the call to the queue and calls \<open>process\<close>. While a drain loop is
  running that is all it does: the call waits in the queue for the running loop. When no
  loop is running \<open>add\<close> enters the loop itself, and the first pass of the loop takes the
  call out of the queue and invokes its operation before \<open>add\<close> returns. In both cases an
  operation is invoked by the loop body \<open>start_batch\<close> only.
\<close>

theorem add_enqueues_and_loop_starts:
  "add q e = (if processing q then q\<lparr>queue := queue q @ [e]\<rparr>
              else start_batch (q\<lparr>queue := queue q @ [e], processing := True\<rparr>))
   \<and> (queue_ok q \<longrightarrow> processing q \<longrightarrow>
        started (add q e) = started q \<and> queue (add q e) = queue q @ [e]
        \<and> inflight (add q e) = inflight q)
   \<and> (queue_ok q \<longrightarrow> \<not> processing q \<longrightarrow>
        started (add q e) = started q @ [ident e] \<and> queue (add q e) = []
        \<and> inflight (add q e) = [e] \<and> processing (add q e))"
  by (auto simp: add_def process_def start_batch_def queue_ok_def batchSize_def Let_def)

theorem add_enqueues_and_loop_starts_witness:
  "queue_ok (newRequestQueue :: unit RequestQueue)
   \<and> \<not> processing (newRequestQueue :: unit RequestQueue)
   \<and> started (add newRequestQueue (someCall 7)) = [7]
   \<and> queue (add newRequestQueue (someCall 7)) = []
   \<and> queue_ok (add newRequestQueue (someCall 7))
   \<and> processing (add newRequestQueue (someCall 7))
   \<and> started (add (add newRequestQueue (someCall 7)) (someCall 8)) = [7]
   \<and> queue (add (add newRequestQueue (someCall 7)) (someCall 8)) = [someCall 8]"
proof -
  have idle: "queue_ok (newRequestQueue :: unit RequestQueue)"
    "\<not> processing (newRequestQueue :: unit RequestQueue)"
    by (simp_all add: queue_ok_def newRequestQueue_def)
  have busy: "queue_ok (add newRequestQueue (someCall 7))"
    "processing (add newRequestQueue (someCall 7))"
    using idle(1) by (simp_all add: queue_ok_steps add_processing)
  have init: "started (newRequestQueue :: unit RequestQueue) = []" "ident (someCall 7) = 7"
    by (simp_all add: newRequestQueue_def someCall_def)
  from add_enqueues_and_loop_starts [of newRequestQueue "someCall 7", THEN conjunct2] idle
  have first: "started (add newRequestQueue (someCall 7)) = [7]"
    "queue (add newRequestQueue (someCall 7)) = ([] :: unit entry list)"
    by (simp_all add: init)
  from add_enqueues_and_loop_starts
    [of "add newRequestQueue (someCall 7)" "someCall 8", THEN conjunct2] busy
  have "started (add (add newRequestQueue (someCall 7)) (someCall 8)) = [7]"
    "queue (add (add newRequestQueue (someCall 7)) (someCall 8)) = [someCall 8]"
    by (simp_all add: first)
  with idle busy first show ?thesis by simp
qed

text \<open>
  The claim as it is written, that \<open>add\<close> never starts an operation, fails on the idle
  queue: the operation of the submitted call has been invoked when \<open>add\<close> returns.
\<close>

theorem add_starts_nothing_counterexample:
  "\<not> (\<forall>(q :: unit RequestQueue) e. queue_ok q \<longrightarrow> started (add q e) = started q)"
proof
  assume "\<forall>(q :: unit RequestQueue) e. queue_ok q \<longrightarrow> started (add q e) = started q"
  then have "queue_ok (newRequestQueue :: unit RequestQueue)
      \<longrightarrow> started (add newRequestQueue (someCall 1)) = started (newRequestQueue :: unit RequestQueue)"
    by blast
  then show False
    by (simp add: queue_ok_def newRequestQueue_def add_def process_def start_batch_def
        batchSize_def someCall_def Let_def)
qed

section \<open>Properties of the data provider\<close>

subsection \<open>The transaction window\<close>

lemma validNew_member:
  "t \<in> set (validNewTransactions prev txs) \<longleftrightarrow>
     t \<in> set txs \<and> signature t \<notin> signature ` set prev \<and> hasTransfers t \<and> isDescribed t"
  by (auto simp: validNewTransactions_def Let_def)

lemma validNew_distinct:
  "distinct (map signature txs) \<Longrightarrow> distinct (map signature (validNewTransactions prev txs))"
  by (simp add: validNewTransactions_def Let_def distinct_map_filter)


lemma merge_invariant:
  assumes "distinct (map signature prev)" and "length prev \<le> 50"
    and "distinct (map signature txs)"
  shows "length (mergeTransactions prev txs) \<le> 50
       \<and> distinct (map signature (mergeTransactions prev txs))"
proof -
  let ?new = "validNewTransactions prev txs"
  have disj: "set (map signature ?new) \<inter> set (map signature prev) = {}"
    by (auto simp: validNew_member)
  have "distinct (map signature (?new @ prev))"
    using validNew_distinct [OF assms(3), of prev] assms(1) disj by simp
  then have "distinct (take 50 (map signature (?new @ prev)))"
    by (rule distinct_take)
  then have d: "distinct (map signature (take 50 (?new @ prev)))"
    by (simp only: take_map)
  have l: "length (take 50 (?new @ prev)) \<le> 50"
    by simp
  show ?thesis
  proof (cases "?new = []")
    case True
    then have "mergeTransactions prev txs = prev"
      by (simp add: mergeTransactions_def)
    with assms(1,2) show ?thesis by simp
  next
    case False
    then have "mergeTransactions prev txs = take 50 (?new @ prev)"
      by (simp add: mergeTransactions_def)
    with d l show ?thesis by simp
  qed
qed





text \<open>
  Every window the provider can hold, starting from the empty one, has at most 50 records,
  and no signature twice as long as no poll lists a signature twice.
\<close>

lemma window_invariant:
  "\<forall>txs \<in> set polls. distinct (map signature txs) \<Longrightarrow>
     length (foldl mergeTransactions [] polls) \<le> 50
     \<and> distinct (map signature (foldl mergeTransactions [] polls))"
proof (induction polls rule: rev_induct)
  case Nil
  then show ?case by simp
next
  case (snoc txs polls)
  then have ih: "length (foldl mergeTransactions [] polls) \<le> 50"
    "distinct (map signature (foldl mergeTransactions [] polls))"
    and d: "distinct (map signature txs)" by simp_all
  from merge_invariant [OF ih(2) ih(1) d] show ?case by simp
qed

subsection \<open>The static refresh\<close>

lemma promise_all4_rejects:
  "isl (snd a) \<or> isl (snd b) \<or> isl (snd c) \<or> isl (snd d) \<Longrightarrow> isl (promise_all4 a b c d)"
  by (auto simp: promise_all4_def isl_def split: sum.splits option.splits prod.splits)

lemma promise_all4_fulfils:
  "snd a = Inr w \<Longrightarrow> snd b = Inr x \<Longrightarrow> snd c = Inr y \<Longrightarrow> snd d = Inr z \<Longrightarrow>
     promise_all4 a b c d = Inr (w, x, y, z)"
  by (simp add: promise_all4_def)

lemma settled_failure_frame:
  "metrics (fetchStaticData_settled (Inl e) st) = metrics st
   \<and> supply_data (fetchStaticData_settled (Inl e) st) = supply_data st
   \<and> holders (fetchStaticData_settled (Inl e) st) = holders st
   \<and> tokenMetadata (fetchStaticData_settled (Inl e) st) = tokenMetadata st
   \<and> transactions (fetchStaticData_settled (Inl e) st) = transactions st"
  by (simp add: fetchStaticData_settled_def)

text \<open>
  C5. A static refresh in which one of the four requests fails leaves \<open>metrics\<close>,
  \<open>supply\<close>, \<open>holders\<close> and \<open>tokenMetadata\<close> as they were; a refresh in which all four
  succeed replaces all four by the fetched values.
\<close>

theorem static_refresh_all_or_nothing:
  "((isl (snd a) \<or> isl (snd b) \<or> isl (snd c) \<or> isl (snd d)) \<longrightarrow>
       metrics (fetchStaticData a b c d st) = metrics st
       \<and> supply_data (fetchStaticData a b c d st) = supply_data st
       \<and> holders (fetchStaticData a b c d st) = holders st
       \<and> tokenMetadata (fetchStaticData a b c d st) = tokenMetadata st)
   \<and> (snd a = Inr m \<and> snd b = Inr s \<and> snd c = Inr h \<and> snd d = Inr t \<longrightarrow>
       metrics (fetchStaticData a b c d st) = Some m
       \<and> supply_data (fetchStaticData a b c d st) = Some s
       \<and> holders (fetchStaticData a b c d st) = h
       \<and> tokenMetadata (fetchStaticData a b c d st) = Some t)"
proof (intro conjI impI)
  assume failed: "isl (snd a) \<or> isl (snd b) \<or> isl (snd c) \<or> isl (snd d)"
  then obtain e where e: "promise_all4 a b c d = Inl e"
    using promise_all4_rejects [of a b c d] by (auto simp: isl_def)
  show "metrics (fetchStaticData a b c d st) = metrics st"
    "supply_data (fetchStaticData a b c d st) = supply_data st"
    "holders (fetchStaticData a b c d st) = holders st"
    "tokenMetadata (fetchStaticData a b c d st) = tokenMetadata st"
    using settled_failure_frame [of e "fetchStaticData_begin st"]
    by (simp_all add: fetchStaticData_def e fetchStaticData_begin_def)
next
  assume "snd a = Inr m \<and> snd b = Inr s \<and> snd c = Inr h \<and> snd d = Inr t"
  then have ok: "promise_all4 a b c d = Inr (m, s, h, t)"
    by (simp add: promise_all4_fulfils)
  show "metrics (fetchStaticData a b c d st) = Some m"
    "supply_data (fetchStaticData a b c d st) = Some s"
    "holders (fetchStaticData a b c d st) = h"
    "tokenMetadata (fetchStaticData a b c d st) = Some t"
    by (simp_all add: fetchStaticData_def ok fetchStaticData_settled_def)
qed

theorem static_refresh_all_or_nothing_witness:
  "isl (snd (3 :: nat, Inl metricsFailure :: thrown + RewardMetrics))
   \<and> metrics (fetchStaticData (3, Inl metricsFailure) (1, Inr supplyNew) (2, Inr [])
        (0, Inr hardcodedMetadata) loadedState) = Some metricsOld
   \<and> supply_data (fetchStaticData (3, Inl metricsFailure) (1, Inr supplyNew) (2, Inr [])
        (0, Inr hardcodedMetadata) loadedState) = Some supplyOld
   \<and> holders (fetchStaticData (3, Inl metricsFailure) (1, Inr supplyNew) (2, Inr [])
        (0, Inr hardcodedMetadata) loadedState) = [holderOld]
   \<and> tokenMetadata (fetchStaticData (3, Inl metricsFailure) (1, Inr supplyNew) (2, Inr [])
        (0, Inr hardcodedMetadata) loadedState) = Some (rpcFallbackMetadata None)
   \<and> metrics (fetchStaticData (3, Inr metricsNew) (1, Inr supplyNew) (2, Inr [])
        (0, Inr hardcodedMetadata) loadedState) = Some metricsNew
   \<and> supply_data (fetchStaticData (3, Inr metricsNew) (1, Inr supplyNew) (2, Inr [])
        (0, Inr hardcodedMetadata) loadedState) = Some supplyNew
   \<and> holders (fetchStaticData (3, Inr metricsNew) (1, Inr supplyNew) (2, Inr [])
        (0, Inr hardcodedMetadata) loadedState) = []
   \<and> tokenMetadata (fetchStaticData (3, Inr metricsNew) (1, Inr supplyNew) (2, Inr [])
        (0, Inr hardcodedMetadata) loadedState) = Some hardcodedMetadata"
proof -
  have old: "metrics loadedState = Some metricsOld" "supply_data loadedState = Some supplyOld"
    "holders loadedState = [holderOld]" "tokenMetadata loadedState = Some (rpcFallbackMetadata None)"
    by (simp_all add: loadedState_def)
  from static_refresh_all_or_nothing
    [of "(3, Inl metricsFailure)" "(1, Inr supplyNew)" "(2, Inr [])" "(0, Inr hardcodedMetadata)"
        loadedState, THEN conjunct1]
  have failed:
    "metrics (fetchStaticData (3, Inl metricsFailure) (1, Inr supplyNew) (2, Inr [])
        (0, Inr hardcodedMetadata) loadedState) = Some metricsOld"
    "supply_data (fetchStaticData (3, Inl metricsFailure) (1, Inr supplyNew) (2, Inr [])
        (0, Inr hardcodedMetadata) loadedState) = Some supplyOld"
    "holders (fetchStaticData (3, Inl metricsFailure) (1, Inr supplyNew) (2, Inr [])
        (0, Inr hardcodedMetadata) loadedState) = [holderOld]"
    "tokenMetadata (fetchStaticData (3, Inl metricsFailure) (1, Inr supplyNew) (2, Inr [])
        (0, Inr hardcodedMetadata) loadedState) = Some (rpcFallbackMetadata None)"
    by (simp_all add: old)
  from static_refresh_all_or_nothing
    [where a = "(3, Inr metricsNew)" and m = metricsNew and b = "(1, Inr supplyNew)"
       and s = supplyNew and c = "(2, Inr [])" and h = "[]"
       and d = "(0, Inr hardcodedMetadata)" and t = hardcodedMetadata and st = loadedState,
     THEN conjunct2]
  have fetched:
    "metrics (fetchStaticData (3, Inr metricsNew) (1, Inr supplyNew) (2, Inr [])
        (0, Inr hardcodedMetadata) loadedState) = Some metricsNew"
    "supply_data (fetchStaticData (3, Inr metricsNew) (1, Inr supplyNew) (2, Inr [])
        (0, Inr hardcodedMetadata) loadedState) = Some supplyNew"
    "holders (fetchStaticData (3, Inr metricsNew) (1, Inr supplyNew) (2, Inr [])
        (0, Inr hardcodedMetadata) loadedState) = []"
    "tokenMetadata (fetchStaticData (3, Inr metricsNew) (1, Inr supplyNew) (2, Inr [])
        (0, Inr hardcodedMetadata) loadedState) = Some hardcodedMetadata"
    by simp_all
  from failed fetched show ?thesis by simp
qed

subsection \<open>Teardown\<close>

text \<open>
  After teardown both timers are cleared and a response to the transaction poll is dropped
  by the \<open>isMounted\<close> test of \<open>fetchTransactions\<close>.
\<close>

lemma teardown_stops_poll:
  "pollTick (unmount p) = unmount p
   \<and> staticTick (unmount p) = unmount p
   \<and> transactionsArrived isInitial r (unmount p) = unmount p"
  by (cases r) (simp_all add: pollTick_def staticTick_def unmount_def transactionsArrived_def
      fetchTransactions_settled_def)

text \<open>
  C6. What the code does with a static refresh that is answered after teardown:
  \<open>fetchStaticData\<close> has no such test, so the late answer is written to the state. Here
  the provider is mounted on the initial state and torn down while its first refresh is in
  flight; the answer then replaces the four fields and clears \<open>loading\<close>, and a late
  failure sets \<open>error\<close>.
\<close>

theorem late_static_response_applied:
  "isMounted (unmount (mount initialState)) = False
   \<and> metrics (state (unmount (mount initialState))) = None
   \<and> loading (state (unmount (mount initialState))) = True
   \<and> metrics (state (staticDataArrived (Inr (metricsNew, supplyNew, [], hardcodedMetadata))
        (unmount (mount initialState)))) = Some metricsNew
   \<and> supply_data (state (staticDataArrived (Inr (metricsNew, supplyNew, [], hardcodedMetadata))
        (unmount (mount initialState)))) = Some supplyNew
   \<and> tokenMetadata (state (staticDataArrived (Inr (metricsNew, supplyNew, [], hardcodedMetadata))
        (unmount (mount initialState)))) = Some hardcodedMetadata
   \<and> loading (state (staticDataArrived (Inr (metricsNew, supplyNew, [], hardcodedMetadata))
        (unmount (mount initialState)))) = False
   \<and> error (state (staticDataArrived (Inl metricsFailure) (unmount (mount initialState))))
       = Some metricsFailure"
  by (simp add: unmount_def mount_def initialState_def staticDataArrived_def
      fetchStaticData_settled_def fetchStaticData_begin_def fetchTransactions_begin_def
      asError_def metricsFailure_def)

section \<open>Properties of the upstream client\<close>

subsection \<open>Batch parsing\<close>

text \<open>
  Seven signatures make three batches, of three, three and one. When the first two are
  parsed and the third fails, whatever the error, the records of the first two are returned.
\<close>

lemma partial_results_seven:
  assumes "length signatures = 7"
    and "parseBatch (send (take 3 signatures)) = Inr (Some r1)"
    and "parseBatch (send (take 3 (drop 3 signatures))) = Inr (Some r2)"
    and "parseBatch (send (take 3 (drop 6 signatures))) = Inl e"
  shows "results (parseTransactionsWithHelius send signatures) = r1 @ r2
       \<and> sent (parseTransactionsWithHelius send signatures)
           = [take 3 signatures, take 3 (drop 3 signatures), take 3 (drop 6 signatures)]"
proof -
  let ?run0 = "\<lparr>results = [], sent = [], pauses = 0\<rparr>"
  let ?run1 = "\<lparr>results = r1, sent = [take 3 signatures], pauses = Suc 0\<rparr>"
  let ?run2 = "\<lparr>results = r1 @ r2, sent = [take 3 signatures, take 3 (drop 3 signatures)],
                pauses = Suc (Suc 0)\<rparr>"
  let ?run3 = "\<lparr>results = r1 @ r2,
                sent = [take 3 signatures, take 3 (drop 3 signatures), take 3 (drop 6 signatures)],
                pauses = Suc (Suc 0)\<rparr>"
  have s0: "parse_loop send signatures 0 ?run0 = parse_loop send signatures 3 ?run1"
    using assms(1,2) by (subst parse_loop.simps) (simp add: Let_def)
  have s1: "parse_loop send signatures 3 ?run1 = parse_loop send signatures 6 ?run2"
    using assms(1,3) by (subst parse_loop.simps) (simp add: Let_def)
  have s3: "parse_loop send signatures 9 ?run3 = ?run3"
    using assms(1) by (subst parse_loop.simps) simp
  have s2: "parse_loop send signatures 6 ?run2 = ?run3"
    using assms(1,4) s3 by (subst parse_loop.simps) (simp add: Let_def)
  from s0 s1 s2 assms(1) show ?thesis
    by (simp add: parseTransactionsWithHelius_def)
qed

lemma six_records_of_two_batches:
  "length (filter hasSignature d1) = 3 \<Longrightarrow> length (filter hasSignature d2) = 3 \<Longrightarrow>
     length (parsedTransactions d1 @ parsedTransactions d2) = 6"
proof -
  have n: "length (dropNulls (filter hasSignature d)) = length (filter hasSignature d)" for d
    by (induction d) (auto simp: hasSignature_def split: option.splits)
  show "length (filter hasSignature d1) = 3 \<Longrightarrow> length (filter hasSignature d2) = 3 \<Longrightarrow>
     length (parsedTransactions d1 @ parsedTransactions d2) = 6"
    by (simp add: parsedTransactions_def n)
qed

text \<open>
  C7. What the code does when a batch is refused with status 429: \<open>fetchWithRetry\<close> throws
  the message \<open>Rate limit exceeded\<close> after its three attempts, the \<open>catch\<close> of the loop looks
  for the lower-case \<open>rate limit\<close>, does not find it, and goes on with the next batch. With
  six signatures of which the first batch is refused, the second batch is still sent and its
  three records are returned.
\<close>

theorem rate_limited_batch_does_not_stop:
  "send6 [''s1'', ''s2'', ''s3''] = Inl (Error ''Rate limit exceeded'')
   \<and> mentionsRateLimit (Error ''Rate limit exceeded'') = False
   \<and> sent (parseTransactionsWithHelius send6 sigs6)
       = [[''s1'', ''s2'', ''s3''], [''s4'', ''s5'', ''s6'']]
   \<and> map signature (results (parseTransactionsWithHelius send6 sigs6)) = [''s4'', ''s5'', ''s6'']"
proof -
  have limited: "send6 [''s1'', ''s2'', ''s3''] = Inl (Error ''Rate limit exceeded'')"
    by (simp add: send6_def fetchWithRetry_body_def retryWithBackoff_def retry_loop.simps
        net6_def heliusLimited_def fetchAttempt_def ok_def isRateLimitError_def)
  have parsed: "send6 [''s4'', ''s5'', ''s6''] = Inr (heliusOk [''s4'', ''s5'', ''s6''])"
    by (simp add: send6_def fetchWithRetry_body_def retryWithBackoff_def retry_loop.simps
        net6_def heliusOk_def fetchAttempt_def ok_def)
  have no_marker: "mentionsRateLimit (Error ''Rate limit exceeded'') = False"
    by (simp add: mentionsRateLimit_def)
  have b1: "parseBatch (send6 [''s1'', ''s2'', ''s3'']) = Inl (Error ''Rate limit exceeded'')"
    by (simp add: limited parseBatch_def)
  have b2: "parseBatch (send6 [''s4'', ''s5'', ''s6''])
      = Inr (Some (map (\<lambda>sig. toEnhanced (parsedOf sig)) [''s4'', ''s5'', ''s6'']))"
    by (simp add: parsed parseBatch_def heliusOk_def ok_def parsedTransactions_def
        hasSignature_def truthy_def parsedOf_def)
  let ?run0 = "\<lparr>results = [], sent = [], pauses = 0\<rparr>"
  let ?run1 = "\<lparr>results = [], sent = [[''s1'', ''s2'', ''s3'']], pauses = 0\<rparr>"
  let ?run2 = "\<lparr>results = map (\<lambda>sig. toEnhanced (parsedOf sig)) [''s4'', ''s5'', ''s6''],
                sent = [[''s1'', ''s2'', ''s3''], [''s4'', ''s5'', ''s6'']], pauses = 0\<rparr>"
  have s2: "parse_loop send6 sigs6 6 ?run2 = ?run2"
    by (subst parse_loop.simps) (simp add: sigs6_def)
  have s1: "parse_loop send6 sigs6 3 ?run1 = ?run2"
    using b2 s2 by (subst parse_loop.simps) (simp add: sigs6_def Let_def)
  have s0: "parse_loop send6 sigs6 0 ?run0 = ?run2"
    using b1 no_marker s1 by (subst parse_loop.simps) (simp add: sigs6_def Let_def)
  have "parseTransactionsWithHelius send6 sigs6 = ?run2"
    using s0 by (simp add: parseTransactionsWithHelius_def sigs6_def)
  with limited no_marker show ?thesis
    by (simp add: toEnhanced_def parsedOf_def orElse_def)
qed

subsection \<open>Wallet activity\<close>

lemma foldl_plus:
  "foldl (\<lambda>acc x. acc + f x) (a :: rat) xs = a + sum_list (map f xs)"
  by (induction xs arbitrary: a) simp_all

lemma addTransfers_sum:
  "addTransfers v tx
     = v + sum_list (map (\<lambda>t. \<bar>tokenAmount t\<bar>) (filter isJpgTransfer (tokenTransfers tx)))"
  by (simp add: addTransfers_def foldl_plus)

lemma addTransfers_other:
  "\<not> isJpgTransaction tx \<Longrightarrow> addTransfers v tx = v"
  by (simp add: addTransfers_sum isJpgTransaction_def list_ex_iff filter_empty_conv [THEN iffD2])

lemma volume_over_history:
  "foldl addTransfers v (filter isJpgTransaction txs)
     = v + sum_list (map (\<lambda>t. \<bar>tokenAmount t\<bar>) (jpgTransfersOf txs))"
proof (induction txs arbitrary: v)
  case Nil
  then show ?case by (simp add: jpgTransfersOf_def)
next
  case (Cons tx txs)
  show ?case
  proof (cases "isJpgTransaction tx")
    case True
    then show ?thesis
      using Cons.IH [of "addTransfers v tx"]
      by (simp add: addTransfers_sum jpgTransfersOf_def)
  next
    case False
    then have "filter isJpgTransfer (tokenTransfers tx) = []"
      by (simp add: isJpgTransaction_def list_ex_iff filter_empty_conv)
    with False show ?thesis
      using Cons.IH [of v] by (simp add: jpgTransfersOf_def)
  qed
qed

text \<open>
  C8. The total volume of a wallet lookup is the sum of the absolute amounts of the
  transfers of the tracked token in the wallet's history, and of nothing else. The average
  transaction size is that volume divided by the number of all transactions of the history
  in which the wallet is the fee payer or a party of a token or native transfer, and 0 when
  there is none.
\<close>

theorem wallet_volume_and_average:
  "w_totalVolume (walletActivity addr txs)
     = sum_list (map (\<lambda>t. \<bar>tokenAmount t\<bar>) (jpgTransfersOf txs))
   \<and> w_totalTransactions (walletActivity addr txs) = length (filter (involvesWallet addr) txs)
   \<and> w_averageTransactionSize (walletActivity addr txs)
       = (if length (filter (involvesWallet addr) txs) > 0
          then sum_list (map (\<lambda>t. \<bar>tokenAmount t\<bar>) (jpgTransfersOf txs))
               / of_nat (length (filter (involvesWallet addr) txs))
          else 0)"
  using volume_over_history [of 0 txs] by (simp add: walletActivity_def Let_def)

theorem wallet_volume_and_average_witness:
  "w_totalVolume (walletActivity ''alice'' [txA, txB]) = 10
   \<and> w_totalTransactions (walletActivity ''alice'' [txA, txB]) = 2
   \<and> w_averageTransactionSize (walletActivity ''alice'' [txA, txB]) = 5"
proof -
  have transfers: "jpgTransfersOf [txA, txB] = [transferA]"
    by (simp add: jpgTransfersOf_def txA_def txB_def isJpgTransfer_def transferA_def)
  have wallet: "filter (involvesWallet ''alice'') [txA, txB] = [txA, txB]"
    by (simp add: involvesWallet_def txA_def txB_def)
  have "w_totalVolume (walletActivity ''alice'' [txA, txB])
       = sum_list (map (\<lambda>t. \<bar>tokenAmount t\<bar>) [transferA])
     \<and> w_totalTransactions (walletActivity ''alice'' [txA, txB]) = length [txA, txB]
     \<and> w_averageTransactionSize (walletActivity ''alice'' [txA, txB])
         = (if length [txA, txB] > 0
            then sum_list (map (\<lambda>t. \<bar>tokenAmount t\<bar>) [transferA]) / of_nat (length [txA, txB])
            else 0)"
    using wallet_volume_and_average [of "''alice''" "[txA, txB]"]
    unfolding transfers wallet .
  then show ?thesis
    by (simp add: transferA_def)
qed

text \<open>
  The claim as it is written, that the average is the volume over the transfers of the
  tracked token, fails on a wallet with one such transfer of 10 and one other transaction:
  the code divides by 2.
\<close>

theorem wallet_average_counterexample:
  "\<not> (\<forall>addr txs. w_averageTransactionSize (walletActivity addr txs)
          = (if jpgTransfersOf txs = [] then 0
             else w_totalVolume (walletActivity addr txs) / of_nat (length (jpgTransfersOf txs))))"
proof
  assume "\<forall>addr txs. w_averageTransactionSize (walletActivity addr txs)
          = (if jpgTransfersOf txs = [] then 0
             else w_totalVolume (walletActivity addr txs) / of_nat (length (jpgTransfersOf txs)))"
  then have claim: "w_averageTransactionSize (walletActivity ''alice'' [txA, txB])
          = (if jpgTransfersOf [txA, txB] = [] then 0
             else w_totalVolume (walletActivity ''alice'' [txA, txB])
                  / of_nat (length (jpgTransfersOf [txA, txB])))"
    by blast
  have transfers: "jpgTransfersOf [txA, txB] = [transferA]"
    by (simp add: jpgTransfersOf_def txA_def txB_def isJpgTransfer_def transferA_def)
  have code: "w_averageTransactionSize (walletActivity ''alice'' [txA, txB]) = 5"
    "w_totalVolume (walletActivity ''alice'' [txA, txB]) = 10"
    by (simp_all add: walletActivity_def Let_def involvesWallet_def isJpgTransaction_def
        isJpgTransfer_def addTransfers_def txA_def txB_def transferA_def)
  from claim show False
    by (simp add: transfers code)
qed

subsection \<open>The token metadata cache\<close>

lemma tryFetchMetadata_down:
  "isl (metadataFetch up) \<Longrightarrow> \<exists>e. tryFetchMetadata up = (Inl e, 1)"
  by (auto simp: tryFetchMetadata_def isl_def)

lemma getTokenMetadata_cached:
  "tokenMetadataCache c = Some m \<Longrightarrow> now - tokenMetadataCacheTime c < CACHE_DURATION \<Longrightarrow>
     getTokenMetadata c now up = (m, c, 0)"
  by (simp add: getTokenMetadata_def)

lemma getTokenMetadata_refresh:
  "\<not> cacheValid c now \<Longrightarrow>
     getTokenMetadata c now up =
       (case tryFetchMetadata up of
          (Inr m, n) \<Rightarrow> (m, \<lparr>tokenMetadataCache = Some m, tokenMetadataCacheTime = now\<rparr>, n)
        | (Inl e, n) \<Rightarrow>
            (hardcodedMetadata,
             \<lparr>tokenMetadataCache = Some hardcodedMetadata, tokenMetadataCacheTime = now\<rparr>, n))"
  by (auto simp: getTokenMetadata_def cacheValid_def split: option.splits)

text \<open>
  C9. When the cache is empty or expired and the upstream requests of \<open>getTokenMetadata\<close>
  fail, the call issues one request, returns the hardcoded record and stores it with the time
  of the call; every call made less than five minutes after that time returns the same
  record and the same cache and issues no request, whatever the upstream would answer.
\<close>

theorem metadata_fallback_is_cached:
  assumes "isl (metadataFetch up)" and "isl (supplyRpc up)"
    and "\<not> cacheValid c now"
    and "now' - now < CACHE_DURATION"
  shows "getTokenMetadata c now up
           = (hardcodedMetadata,
              \<lparr>tokenMetadataCache = Some hardcodedMetadata, tokenMetadataCacheTime = now\<rparr>, 1)
       \<and> getTokenMetadata
             \<lparr>tokenMetadataCache = Some hardcodedMetadata, tokenMetadataCacheTime = now\<rparr> now' up'
           = (hardcodedMetadata,
              \<lparr>tokenMetadataCache = Some hardcodedMetadata, tokenMetadataCacheTime = now\<rparr>, 0)"
proof -
  from tryFetchMetadata_down [OF assms(1)] obtain e where "tryFetchMetadata up = (Inl e, 1)"
    by blast
  then have first: "getTokenMetadata c now up
           = (hardcodedMetadata,
              \<lparr>tokenMetadataCache = Some hardcodedMetadata, tokenMetadataCacheTime = now\<rparr>, 1)"
    by (simp add: getTokenMetadata_refresh [OF assms(3)])
  have later: "getTokenMetadata
             \<lparr>tokenMetadataCache = Some hardcodedMetadata, tokenMetadataCacheTime = now\<rparr> now' up'
           = (hardcodedMetadata,
              \<lparr>tokenMetadataCache = Some hardcodedMetadata, tokenMetadataCacheTime = now\<rparr>, 0)"
    using assms(4) by (simp add: getTokenMetadata_cached)
  from first later show ?thesis by simp
qed

theorem metadata_fallback_is_cached_witness:
  "isl (metadataFetch upstreamDown) \<and> isl (supplyRpc upstreamDown)
   \<and> (1700000299999 :: int) - 1700000000000 < CACHE_DURATION
   \<and> getTokenMetadata initialCache 1700000000000 upstreamDown
       = (hardcodedMetadata,
          \<lparr>tokenMetadataCache = Some hardcodedMetadata, tokenMetadataCacheTime = 1700000000000\<rparr>,
          1)
   \<and> getTokenMetadata
         \<lparr>tokenMetadataCache = Some hardcodedMetadata, tokenMetadataCacheTime = 1700000000000\<rparr>
         1700000299999 upstreamUp
       = (hardcodedMetadata,
          \<lparr>tokenMetadataCache = Some hardcodedMetadata, tokenMetadataCacheTime = 1700000000000\<rparr>,
          0)"
proof -
  have a: "isl (metadataFetch upstreamDown)" and b: "isl (supplyRpc upstreamDown)"
    by (simp_all add: upstreamDown_def)
  have c: "\<not> cacheValid initialCache 1700000000000"
    by (simp add: cacheValid_def initialCache_def)
  have d: "(1700000299999 :: int) - 1700000000000 < CACHE_DURATION"
    by (simp add: CACHE_DURATION_def)
  from metadata_fallback_is_cached [OF a b c d, of upstreamUp] a b d show ?thesis
    by simp
qed

text \<open>At five minutes the cached record has expired and the upstream is asked again.\<close>

lemma metadata_cache_expires:
  "getTokenMetadata
      \<lparr>tokenMetadataCache = Some hardcodedMetadata, tokenMetadataCacheTime = 0\<rparr> 300000 upstreamUp
     = (fromOnChain \<lparr>oc_name = Some ''Glitch'', oc_symbol = Some ''JPG'', oc_decimals = Some 6,
                     oc_description = None\<rparr> None,
        \<lparr>tokenMetadataCache =
            Some (fromOnChain \<lparr>oc_name = Some ''Glitch'', oc_symbol = Some ''JPG'',
                                oc_decimals = Some 6, oc_description = None\<rparr> None),
          tokenMetadataCacheTime = 300000\<rparr>,
        1)"
  by (simp add: getTokenMetadata_def CACHE_DURATION_def tryFetchMetadata_def upstreamUp_def
      onChainOf_def offChainOf_def)

subsection \<open>Top holders\<close>





text \<open>An account is dropped exactly when it has no amount or the amount is zero or \<open>NaN\<close>.\<close>

lemma noBalance_cases:
  "noBalance u \<longleftrightarrow> u = None \<or> u = Some (Fin 0) \<or> u = Some NaN"
  by (auto simp: noBalance_def js_falsy_def split: option.splits)





text \<open>
  The test of \<open>getTopHolders\<close> has no sign check of its own: an account with a negative
  amount, which no reply about token balances carries, would be returned with it.
\<close>

lemma negative_amount_is_kept:
  "map amount (getTopHolders ops (Inr (Some negativeAccount)) (Inr (Some supplyValue)))
     = [Fin (- 5)]"
  by (simp add: getTopHolders_def negativeAccount_def toHolder_def js_falsy_def)

end
